theory Spec2Isabelle
  imports Main
begin

section \<open>Data model (shared/schema.ts)\<close>

text \<open>
  The rows of the tables \<open>users\<close>, \<open>user_sessions\<close> and \<open>audit_logs\<close>. Field names are
  the column names of the source with a prefix per table (\<open>u_\<close>, \<open>s_\<close>, \<open>a_\<close>), since
  several tables share \<open>id\<close>, \<open>userId\<close>, \<open>isActive\<close>. Timestamps are milliseconds since
  the epoch. A nullable column is an \<open>option\<close>.
\<close>

type_synonym uuid = string
type_synonym timestamp = nat

datatype json = JString string | JBool bool | JObject "(string \<times> json) list"

record User =
  u_id :: uuid
  u_email :: string
  u_firstName :: string
  u_lastName :: string
  u_password :: string
  u_profile :: string
  u_isActive :: bool
  u_temporaryPassword :: bool
  u_mustChangePassword :: bool
  u_lastLogin :: "timestamp option"
  u_createdAt :: timestamp
  u_updatedAt :: timestamp
  u_createdBy :: "uuid option"
  u_updatedBy :: "uuid option"

text \<open>
  The primary key of a session or audit row is drawn by the database
  (\<open>defaultRandom()\<close>); the model draws it from a counter kept with the tables.
\<close>

record UserSession =
  s_id :: nat
  s_userId :: uuid
  s_token :: string
  s_isActive :: bool
  s_expiresAt :: timestamp
  s_ipAddress :: "string option"
  s_userAgent :: "string option"
  s_createdAt :: timestamp
  s_lastUsed :: timestamp

record AuditLog =
  a_id :: nat
  a_userId :: "uuid option"
  a_action :: string
  a_table :: string
  a_recordId :: "uuid option"
  a_oldValues :: "json option"
  a_newValues :: "json option"
  a_ipAddress :: "string option"
  a_userAgent :: "string option"
  a_createdAt :: timestamp

text \<open>\<open>InsertAuditLog\<close>: an audit row without \<open>id\<close> and \<open>createdAt\<close>.\<close>

record InsertAuditLog =
  l_userId :: "uuid option"
  l_action :: string
  l_table :: string
  l_recordId :: "uuid option"
  l_oldValues :: "json option"
  l_newValues :: "json option"
  l_ipAddress :: "string option"
  l_userAgent :: "string option"

section \<open>Storage (server/storage.ts)\<close>

text \<open>
  The methods of \<open>DatabaseStorage\<close> that the authentication core calls. Each of them
  awaits one query of the database driver, which is outside the repository; such a query
  either resolves or rejects. \<open>rejecting\<close> is the set of methods whose query rejects
  (the database is unreachable for them); a rejected query is the thrown error
  \<open>StorageUnavailable\<close>. The unique index on \<open>user_sessions.token\<close> makes an insert
  of a token that is already stored reject as well. The driver's other rejections, which
  depend on the data of the query (a string that is not a uuid, a value longer than its
  column), are not told apart: whether a method rejects is given by \<open>rejecting\<close> alone.
\<close>

datatype storage_call =
  GetUser | GetUserByEmail | UpdateUserLastLogin
  | CreateSession | GetActiveSession | DeactivateSession | CreateAuditLog

datatype error = StorageUnavailable | UniqueViolation

record db =
  users :: "User list"
  userSessions :: "UserSession list"
  auditLogs :: "AuditLog list"
  uuid_counter :: nat
  rejecting :: "storage_call set"

text \<open>\<open>const [row] = await db.select()...\<close>: the first row of the result, or undefined.\<close>

definition getUser :: "db \<Rightarrow> uuid \<Rightarrow> error + User option" where
  "getUser d i =
     (if GetUser \<in> rejecting d then Inl StorageUnavailable
      else Inr (find (\<lambda>u. u_id u = i) (users d)))"

definition getUserByEmail :: "db \<Rightarrow> string \<Rightarrow> error + User option" where
  "getUserByEmail d e =
     (if GetUserByEmail \<in> rejecting d then Inl StorageUnavailable
      else Inr (find (\<lambda>u. u_email u = e) (users d)))"

definition updateUserLastLogin :: "timestamp \<Rightarrow> db \<Rightarrow> uuid \<Rightarrow> timestamp \<Rightarrow> error + db" where
  "updateUserLastLogin now d i lastLogin =
     (if UpdateUserLastLogin \<in> rejecting d then Inl StorageUnavailable
      else Inr (d\<lparr>users :=
             map (\<lambda>u. if u_id u = i
                       then u\<lparr>u_lastLogin := Some lastLogin, u_updatedAt := now\<rparr> else u)
               (users d)\<rparr>))"

definition createSession ::
  "timestamp \<Rightarrow> db \<Rightarrow> uuid \<Rightarrow> string \<Rightarrow> timestamp \<Rightarrow> string option \<Rightarrow> string option \<Rightarrow> error + db"
where
  "createSession now d userId token expiresAt ipAddress userAgent =
     (if CreateSession \<in> rejecting d then Inl StorageUnavailable
      else if token \<in> s_token ` set (userSessions d) then Inl UniqueViolation
      else Inr (d\<lparr>userSessions := userSessions d @
                  [\<lparr>s_id = uuid_counter d, s_userId = userId, s_token = token,
                    s_isActive = True, s_expiresAt = expiresAt, s_ipAddress = ipAddress,
                    s_userAgent = userAgent, s_createdAt = now, s_lastUsed = now\<rparr>],
                uuid_counter := Suc (uuid_counter d)\<rparr>))"

definition getActiveSession :: "db \<Rightarrow> string \<Rightarrow> error + UserSession option" where
  "getActiveSession d token =
     (if GetActiveSession \<in> rejecting d then Inl StorageUnavailable
      else Inr (find (\<lambda>s. s_token s = token \<and> s_isActive s = True) (userSessions d)))"

definition deactivateSession :: "db \<Rightarrow> string \<Rightarrow> error + db" where
  "deactivateSession d token =
     (if DeactivateSession \<in> rejecting d then Inl StorageUnavailable
      else Inr (d\<lparr>userSessions :=
             map (\<lambda>s. if s_token s = token then s\<lparr>s_isActive := False\<rparr> else s)
               (userSessions d)\<rparr>))"

definition createAuditLog :: "timestamp \<Rightarrow> db \<Rightarrow> InsertAuditLog \<Rightarrow> error + db" where
  "createAuditLog now d log =
     (if CreateAuditLog \<in> rejecting d then Inl StorageUnavailable
      else Inr (d\<lparr>auditLogs := auditLogs d @
                  [\<lparr>a_id = uuid_counter d, a_userId = l_userId log, a_action = l_action log,
                    a_table = l_table log, a_recordId = l_recordId log,
                    a_oldValues = l_oldValues log, a_newValues = l_newValues log,
                    a_ipAddress = l_ipAddress log, a_userAgent = l_userAgent log,
                    a_createdAt = now\<rparr>],
                uuid_counter := Suc (uuid_counter d)\<rparr>))"

section \<open>Token service and password codec (server/auth.ts)\<close>

text \<open>
  \<open>process.env\<close>: the two variables the module reads; \<open>None\<close> is an unset variable.
\<close>

record process_env =
  env_JWT_SECRET :: "string option"
  env_JWT_REFRESH_SECRET :: "string option"

text \<open>
  JavaScript's \<open>a || b\<close> on a value that is a string or undefined: \<open>b\<close> when \<open>a\<close> is
  undefined or the empty string.
\<close>

definition js_or :: "string option \<Rightarrow> string \<Rightarrow> string" where
  "js_or a b = (case a of None \<Rightarrow> b | Some s \<Rightarrow> if s = [] then b else s)"

definition JWT_SECRET :: "process_env \<Rightarrow> string" where
  "JWT_SECRET E = js_or (env_JWT_SECRET E) ''your-secret-key-change-in-production''"

definition JWT_REFRESH_SECRET :: "process_env \<Rightarrow> string" where
  "JWT_REFRESH_SECRET E =
     js_or (env_JWT_REFRESH_SECRET E) ''your-refresh-secret-key-change-in-production''"

record TokenPayload =
  p_userId :: string
  p_email :: string
  p_profile :: string

text \<open>
  The packages \<open>jsonwebtoken\<close> and \<open>bcrypt\<close> are not part of the repository: they are
  parameters. \<open>jwt_sign payload secret expiresIn clock\<close> is
  \<open>jwt.sign(payload, secret, {expiresIn})\<close> called at time \<open>clock\<close>;
  \<open>jwt_verify token secret clock\<close> is \<open>jwt.verify(token, secret)\<close> called at time
  \<open>clock\<close>, \<open>None\<close> when it throws; \<open>bcrypt_compare\<close> is the resolved value of
  \<open>bcrypt.compare\<close>.
\<close>

record libs =
  jwt_sign :: "TokenPayload \<Rightarrow> string \<Rightarrow> string \<Rightarrow> timestamp \<Rightarrow> string"
  jwt_verify :: "string \<Rightarrow> string \<Rightarrow> timestamp \<Rightarrow> TokenPayload option"
  bcrypt_compare :: "string \<Rightarrow> string \<Rightarrow> bool"

record tokens =
  accessToken :: string
  refreshToken :: string

definition generateTokens :: "libs \<Rightarrow> process_env \<Rightarrow> timestamp \<Rightarrow> TokenPayload \<Rightarrow> tokens" where
  "generateTokens L E now payload =
     \<lparr>accessToken = jwt_sign L payload (JWT_SECRET E) ''15m'' now,
      refreshToken = jwt_sign L payload (JWT_REFRESH_SECRET E) ''7d'' now\<rparr>"

definition verifyToken :: "libs \<Rightarrow> process_env \<Rightarrow> timestamp \<Rightarrow> string \<Rightarrow> TokenPayload option" where
  "verifyToken L E now token = jwt_verify L token (JWT_SECRET E) now"

definition verifyRefreshToken ::
  "libs \<Rightarrow> process_env \<Rightarrow> timestamp \<Rightarrow> string \<Rightarrow> TokenPayload option" where
  "verifyRefreshToken L E now token = jwt_verify L token (JWT_REFRESH_SECRET E) now"

definition comparePassword :: "libs \<Rightarrow> string \<Rightarrow> string \<Rightarrow> bool" where
  "comparePassword L password hash = bcrypt_compare L password hash"

text \<open>
  \<open>Math.random().toString(36).slice(-8)\<close>. The value of \<open>Math.random()\<close> is a double
  in \<open>[0, 1)\<close>, that is \<open>m / 2 ^ k\<close> for naturals \<open>m < 2 ^ k\<close>; it is the parameter
  of the model. \<open>Number.prototype.toString(36)\<close> gives \<open>"0"\<close> for zero and otherwise
  \<open>"0."\<close> followed by base-36 digits; \<open>toString36\<close> prints the exact expansion of
  \<open>m / 2 ^ k\<close>, which is finite (at most \<open>k\<close> digits, each below 36 as \<open>m < 2 ^ k\<close>)
  and is what the engine prints for the short expansions used below. On a long expansion
  the engine stops at the shortest text that reads back as the same double, which
  \<open>toString36\<close> does not reproduce: it is used on short expansions only. \<open>s.slice(-n)\<close>
  keeps the last \<open>n\<close> characters of \<open>s\<close>, all of \<open>s\<close> when it is shorter.
\<close>

definition digit36 :: "nat \<Rightarrow> char" where
  "digit36 v = ''0123456789abcdefghijklmnopqrstuvwxyz'' ! v"

fun frac_digits36 :: "nat \<Rightarrow> nat \<Rightarrow> nat \<Rightarrow> nat list" where
  "frac_digits36 0 m q = []"
| "frac_digits36 (Suc n) m q =
     (if m = 0 then [] else (36 * m) div q # frac_digits36 n ((36 * m) mod q) q)"

definition toString36 :: "nat \<Rightarrow> nat \<Rightarrow> string" where
  "toString36 m k =
     (if m = 0 then ''0'' else ''0.'' @ map digit36 (frac_digits36 k m (2 ^ k)))"

definition js_slice_last :: "nat \<Rightarrow> string \<Rightarrow> string" where
  "js_slice_last n s = drop (length s - n) s"

definition generateTemporaryPassword :: "nat \<Rightarrow> nat \<Rightarrow> string" where
  "generateTemporaryPassword m k = js_slice_last 8 (toString36 m k)"

section \<open>Requests, responses and the two gates (server/auth.ts)\<close>

text \<open>
  The parts of an Express request that the handlers read: the \<open>Authorization\<close> header,
  \<open>req.ip\<close>, the \<open>User-Agent\<close> header, the fields of the JSON body, and \<open>req.user\<close>,
  which \<open>authenticate\<close> sets. An absent header or body field is \<open>None\<close>.
  \<open>res.status(c).json(b)\<close> is the response \<open>(c, b)\<close>; \<open>res.json(b)\<close> has status 200.
\<close>

record identity =
  i_id :: string
  i_email :: string
  i_profile :: string

record request =
  req_authorization :: "string option"
  req_ip :: "string option"
  req_userAgent :: "string option"
  body_email :: "string option"
  body_password :: "string option"
  body_refreshToken :: "string option"
  req_user :: "identity option"

record response =
  res_status :: nat
  res_body :: json

definition message :: "nat \<Rightarrow> string \<Rightarrow> response" where
  "message c m = \<lparr>res_status = c, res_body = JObject [(''message'', JString m)]\<rparr>"

text \<open>A middleware either sends a response, which ends the request, or calls \<open>next()\<close>.\<close>

datatype step = Respond response | Next request

text \<open>\<open>s.split(c)\<close> for a one-character separator, and \<open>xs[i]\<close> (undefined out of range).\<close>

fun js_split :: "char \<Rightarrow> string \<Rightarrow> string list" where
  "js_split c [] = [[]]"
| "js_split c (x # xs) =
     (if x = c then [] # js_split c xs
      else (case js_split c xs of [] \<Rightarrow> [[x]] | p # ps \<Rightarrow> (x # p) # ps))"

definition js_index :: "'a list \<Rightarrow> nat \<Rightarrow> 'a option" where
  "js_index xs i = (if i < length xs then Some (xs ! i) else None)"

text \<open>
  \<open>authenticate\<close>. \<open>!v\<close> holds of an undefined \<open>v\<close> and of the empty string. Every
  throw inside its \<open>try\<close> (a rejected storage call) is caught and answered with 401
  "Authentication failed".
\<close>

definition authenticate :: "libs \<Rightarrow> process_env \<Rightarrow> timestamp \<Rightarrow> db \<Rightarrow> request \<Rightarrow> step \<times> db" where
  "authenticate L E now d req =
     (case req_authorization req of
        None \<Rightarrow> (Respond (message 401 ''No authorization header provided''), d)
      | Some authHeader \<Rightarrow>
          if authHeader = []
          then (Respond (message 401 ''No authorization header provided''), d)
          else (case js_index (js_split CHR '' '' authHeader) 1 of
             None \<Rightarrow> (Respond (message 401 ''No token provided''), d)
           | Some token \<Rightarrow>
            if token = [] then (Respond (message 401 ''No token provided''), d)
            else (case verifyToken L E now token of
               None \<Rightarrow> (Respond (message 401 ''Invalid or expired token''), d)
             | Some payload \<Rightarrow>
                 (case getUser d (p_userId payload) of
                    Inl err \<Rightarrow> (Respond (message 401 ''Authentication failed''), d)
                  | Inr None \<Rightarrow> (Respond (message 401 ''User not found or inactive''), d)
                  | Inr (Some user) \<Rightarrow>
                      if \<not> u_isActive user
                      then (Respond (message 401 ''User not found or inactive''), d)
                      else (case createAuditLog now d
                                   \<lparr>l_userId = Some (p_userId payload), l_action = ''API_ACCESS'',
                                    l_table = ''users'', l_recordId = Some (p_userId payload),
                                    l_oldValues = None, l_newValues = None,
                                    l_ipAddress = req_ip req, l_userAgent = req_userAgent req\<rparr> of
                          Inl err \<Rightarrow> (Respond (message 401 ''Authentication failed''), d)
                        | Inr d' \<Rightarrow>
                            (Next (req\<lparr>req_user := Some \<lparr>i_id = p_userId payload,
                                       i_email = p_email payload,
                                       i_profile = p_profile payload\<rparr>\<rparr>), d'))))))"

definition authorize :: "string list \<Rightarrow> request \<Rightarrow> step" where
  "authorize profiles req =
     (case req_user req of
        None \<Rightarrow> Respond (message 401 ''Not authenticated'')
      | Some user \<Rightarrow>
          if i_profile user \<notin> set profiles
          then Respond (message 403 ''Insufficient permissions'')
          else Next req)"

text \<open>
  \<open>app.METHOD(path, authenticate, handler)\<close> and
  \<open>app.METHOD(path, authenticate, authorize(profiles), handler)\<close>: Express runs the
  callbacks in order, each one only when the one before it called \<open>next()\<close>.
\<close>

type_synonym handler = "timestamp \<Rightarrow> db \<Rightarrow> request \<Rightarrow> response \<times> db"

definition authenticated :: "libs \<Rightarrow> process_env \<Rightarrow> handler \<Rightarrow> handler" where
  "authenticated L E h now d req =
     (case authenticate L E now d req of
        (Respond r, d') \<Rightarrow> (r, d')
      | (Next req', d') \<Rightarrow> h now d' req')"

definition authorized :: "libs \<Rightarrow> process_env \<Rightarrow> string list \<Rightarrow> handler \<Rightarrow> handler" where
  "authorized L E profiles h now d req =
     (case authenticate L E now d req of
        (Respond r, d') \<Rightarrow> (r, d')
      | (Next req', d') \<Rightarrow>
          (case authorize profiles req' of
             Respond r \<Rightarrow> (r, d')
           | Next req'' \<Rightarrow> h now d' req''))"

section \<open>The authentication routes (server/routes.ts)\<close>

text \<open>
  Each handler runs inside \<open>try { ... } catch\<close>: a throw is answered with 500
  "Internal server error". The writes made before the throw stay, as every storage call
  commits on its own.
\<close>

definition login :: "libs \<Rightarrow> process_env \<Rightarrow> handler" where
  "login L E now d req =
     (case (body_email req, body_password req) of
        (Some email, Some password) \<Rightarrow>
          if email = [] \<or> password = []
          then (message 400 ''Email and password are required'', d)
          else (case getUserByEmail d email of
             Inl err \<Rightarrow> (message 500 ''Internal server error'', d)
           | Inr None \<Rightarrow> (message 401 ''Invalid credentials'', d)
           | Inr (Some user) \<Rightarrow>
               if \<not> u_isActive user then (message 401 ''Invalid credentials'', d)
               else if \<not> comparePassword L password (u_password user)
               then (message 401 ''Invalid credentials'', d)
               else let tokens = generateTokens L E now
                         \<lparr>p_userId = u_id user, p_email = u_email user,
                          p_profile = u_profile user\<rparr> in
                 (case updateUserLastLogin now d (u_id user) now of
                    Inl err \<Rightarrow> (message 500 ''Internal server error'', d)
                  | Inr d1 \<Rightarrow>
                 (case createSession now d1 (u_id user) (refreshToken tokens)
                         (now + 7 * 24 * 60 * 60 * 1000) (req_ip req) (req_userAgent req) of
                    Inl err \<Rightarrow> (message 500 ''Internal server error'', d1)
                  | Inr d2 \<Rightarrow>
                 (case createAuditLog now d2
                         \<lparr>l_userId = Some (u_id user), l_action = ''LOGIN'',
                          l_table = ''users'', l_recordId = Some (u_id user),
                          l_oldValues = None, l_newValues = None,
                          l_ipAddress = req_ip req, l_userAgent = req_userAgent req\<rparr> of
                    Inl err \<Rightarrow> (message 500 ''Internal server error'', d2)
                  | Inr d3 \<Rightarrow>
                      (\<lparr>res_status = 200,
                        res_body = JObject
                          [(''accessToken'', JString (accessToken tokens)),
                           (''refreshToken'', JString (refreshToken tokens)),
                           (''user'', JObject
                              [(''id'', JString (u_id user)),
                               (''email'', JString (u_email user)),
                               (''firstName'', JString (u_firstName user)),
                               (''lastName'', JString (u_lastName user)),
                               (''profile'', JString (u_profile user)),
                               (''mustChangePassword'',
                                  JBool (u_mustChangePassword user))])]\<rparr>, d3)))))
      | _ \<Rightarrow> (message 400 ''Email and password are required'', d))"

definition refresh :: "libs \<Rightarrow> process_env \<Rightarrow> handler" where
  "refresh L E now d req =
     (case body_refreshToken req of
        None \<Rightarrow> (message 400 ''Refresh token is required'', d)
      | Some token \<Rightarrow>
          if token = [] then (message 400 ''Refresh token is required'', d)
          else (case verifyRefreshToken L E now token of
             None \<Rightarrow> (message 401 ''Invalid refresh token'', d)
           | Some payload \<Rightarrow>
               (case getActiveSession d token of
                  Inl err \<Rightarrow> (message 500 ''Internal server error'', d)
                | Inr None \<Rightarrow> (message 401 ''Session not found or expired'', d)
                | Inr (Some session) \<Rightarrow>
                    (case getUser d (p_userId payload) of
                       Inl err \<Rightarrow> (message 500 ''Internal server error'', d)
                     | Inr None \<Rightarrow> (message 401 ''User not found or inactive'', d)
                     | Inr (Some user) \<Rightarrow>
                         if \<not> u_isActive user
                         then (message 401 ''User not found or inactive'', d)
                         else let tokens = generateTokens L E now
                                   \<lparr>p_userId = u_id user, p_email = u_email user,
                                    p_profile = u_profile user\<rparr> in
                           (\<lparr>res_status = 200,
                             res_body = JObject
                               [(''accessToken'', JString (accessToken tokens)),
                                (''refreshToken'', JString (refreshToken tokens))]\<rparr>,
                            d)))))"

text \<open>
  The logout handler, which the route runs after \<open>authenticate\<close>. \<open>req.user!.id\<close>
  throws when \<open>req.user\<close> is undefined.
\<close>

definition logout :: handler where
  "logout now d req =
     (case (case body_refreshToken req of
              None \<Rightarrow> Inr d
            | Some token \<Rightarrow> if token = [] then Inr d else deactivateSession d token) of
        Inl err \<Rightarrow> (message 500 ''Internal server error'', d)
      | Inr d1 \<Rightarrow>
          (case req_user req of
             None \<Rightarrow> (message 500 ''Internal server error'', d1)
           | Some user \<Rightarrow>
               (case createAuditLog now d1
                       \<lparr>l_userId = Some (i_id user), l_action = ''LOGOUT'',
                        l_table = ''users'', l_recordId = Some (i_id user),
                        l_oldValues = None, l_newValues = None,
                        l_ipAddress = req_ip req, l_userAgent = req_userAgent req\<rparr> of
                  Inl err \<Rightarrow> (message 500 ''Internal server error'', d1)
                | Inr d2 \<Rightarrow> (message 200 ''Logged out successfully'', d2))))"

definition logout_route :: "libs \<Rightarrow> process_env \<Rightarrow> handler" where
  "logout_route L E = authenticated L E logout"

section \<open>A reference implementation of the two packages\<close>

text \<open>
  To run the handlers on concrete inputs the parameters need values. The reference
  token is the text of its signing key, its expiry (in seconds, binary digits) and the
  three claims, every field preceded by its length in unary: the verifier accepts a
  token only under the key written in it and before its expiry, which is what an honest
  verifier of a keyed signature does. \<open>expiresIn\<close> is \<open>'15m'\<close> or \<open>'7d'\<close> in the
  source. The reference password hash is the password behind a marker.
\<close>

definition field :: "string \<Rightarrow> string" where
  "field s = replicate (length s) CHR ''#'' @ CHR '':'' # s"

definition take_field :: "string \<Rightarrow> (string \<times> string) option" where
  "take_field t =
     (let n = length (takeWhile (\<lambda>c. c = CHR ''#'') t) in
      case drop n t of
        [] \<Rightarrow> None
      | c # r \<Rightarrow> if c = CHR '':'' \<and> n \<le> length r then Some (take n r, drop n r) else None)"

fun bits :: "nat \<Rightarrow> string" where
  "bits n = (if n = 0 then [] else (if odd n then CHR ''1'' else CHR ''0'') # bits (n div 2))"

declare bits.simps [simp del]

fun unbits :: "string \<Rightarrow> nat" where
  "unbits [] = 0"
| "unbits (c # cs) = (if c = CHR ''1'' then 1 else 0) + 2 * unbits cs"

definition span :: "string \<Rightarrow> nat" where
  "span e = (if e = ''15m'' then 15 * 60 else if e = ''7d'' then 7 * 24 * 60 * 60 else 0)"

definition ref_sign :: "TokenPayload \<Rightarrow> string \<Rightarrow> string \<Rightarrow> timestamp \<Rightarrow> string" where
  "ref_sign payload secret expiresIn clock =
     field secret @ field (bits (clock div 1000 + span expiresIn))
       @ field (p_userId payload) @ field (p_email payload) @ field (p_profile payload)"

definition ref_verify :: "string \<Rightarrow> string \<Rightarrow> timestamp \<Rightarrow> TokenPayload option" where
  "ref_verify token secret clock =
     (case take_field token of
        None \<Rightarrow> None
      | Some (k, r1) \<Rightarrow>
          if k \<noteq> secret then None
          else (case take_field r1 of
             None \<Rightarrow> None
           | Some (e, r2) \<Rightarrow>
               if unbits e \<le> clock div 1000 then None
               else (case take_field r2 of
                  None \<Rightarrow> None
                | Some (uid, r3) \<Rightarrow>
                    (case take_field r3 of
                       None \<Rightarrow> None
                     | Some (em, r4) \<Rightarrow>
                         (case take_field r4 of
                            None \<Rightarrow> None
                          | Some (pr, r5) \<Rightarrow>
                              if r5 = []
                              then Some \<lparr>p_userId = uid, p_email = em, p_profile = pr\<rparr>
                              else None)))))"

definition ref_compare :: "string \<Rightarrow> string \<Rightarrow> bool" where
  "ref_compare password hash = (hash = ''$ref$'' @ password)"

definition ref_libs :: libs where
  "ref_libs = \<lparr>jwt_sign = ref_sign, jwt_verify = ref_verify, bcrypt_compare = ref_compare\<rparr>"

text \<open>
  What the token service asks of \<open>jsonwebtoken\<close>: a token signed with one secret does
  not verify with another.
\<close>

definition key_separating :: "libs \<Rightarrow> bool" where
  "key_separating L =
     (\<forall>payload secret secret' expiresIn t t'.
        secret \<noteq> secret' \<longrightarrow>
        jwt_verify L (jwt_sign L payload secret expiresIn t) secret' t' = None)"

subsection \<open>Concrete inputs\<close>

definition unset_env :: process_env where
  "unset_env = \<lparr>env_JWT_SECRET = None, env_JWT_REFRESH_SECRET = None\<rparr>"

definition admin :: User where
  "admin = \<lparr>u_id = ''u1'', u_email = ''admin@mecone.com'', u_firstName = ''Administrator'',
     u_lastName = ''System'', u_password = ''$ref$admin123'', u_profile = ''ADMINISTRATOR'',
     u_isActive = True, u_temporaryPassword = False, u_mustChangePassword = True,
     u_lastLogin = None, u_createdAt = 0, u_updatedAt = 0, u_createdBy = None,
     u_updatedBy = None\<rparr>"

definition retired :: User where
  "retired = admin\<lparr>u_id := ''u2'', u_email := ''old@mecone.com'', u_isActive := False\<rparr>"

definition manager :: User where
  "manager = admin\<lparr>u_id := ''u3'', u_email := ''boss@mecone.com'', u_profile := ''MANAGER''\<rparr>"

definition coordinator :: User where
  "coordinator =
     admin\<lparr>u_id := ''u4'', u_email := ''coord@mecone.com'', u_profile := ''COORDINATOR''\<rparr>"

text \<open>A user that no store below holds.\<close>

definition ghost :: User where
  "ghost = admin\<lparr>u_id := ''u9'', u_email := ''ghost@mecone.com''\<rparr>"

definition seeded :: db where
  "seeded = \<lparr>users = [admin, retired, manager, coordinator], userSessions = [],
     auditLogs = [], uuid_counter = 0, rejecting = {}\<rparr>"

definition login_request :: "string \<Rightarrow> string \<Rightarrow> request" where
  "login_request email password =
     \<lparr>req_authorization = None, req_ip = Some ''10.0.0.1'', req_userAgent = Some ''curl'',
      body_email = Some email, body_password = Some password, body_refreshToken = None,
      req_user = None\<rparr>"

definition plain_request :: request where
  "plain_request =
     \<lparr>req_authorization = None, req_ip = Some ''10.0.0.1'', req_userAgent = Some ''curl'',
      body_email = None, body_password = None, body_refreshToken = None, req_user = None\<rparr>"

definition bearer :: "string \<Rightarrow> request" where
  "bearer h = plain_request\<lparr>req_authorization := Some h\<rparr>"

definition refresh_request :: "string \<Rightarrow> request" where
  "refresh_request t = plain_request\<lparr>body_refreshToken := Some t\<rparr>"

text \<open>The token pair that a login at time 5000 issues for a user, with no variable set.\<close>

definition payload_of :: "User \<Rightarrow> TokenPayload" where
  "payload_of u = \<lparr>p_userId = u_id u, p_email = u_email u, p_profile = u_profile u\<rparr>"

definition identity_of :: "User \<Rightarrow> identity" where
  "identity_of u = \<lparr>i_id = u_id u, i_email = u_email u, i_profile = u_profile u\<rparr>"

definition access_of :: "User \<Rightarrow> string" where
  "access_of u = accessToken (generateTokens ref_libs unset_env 5000 (payload_of u))"

definition refresh_of :: "User \<Rightarrow> string" where
  "refresh_of u = refreshToken (generateTokens ref_libs unset_env 5000 (payload_of u))"

definition admin_session :: UserSession where
  "admin_session = \<lparr>s_id = 0, s_userId = ''u1'', s_token = refresh_of admin,
     s_isActive = True, s_expiresAt = 604805000, s_ipAddress = Some ''10.0.0.1'',
     s_userAgent = Some ''curl'', s_createdAt = 5000, s_lastUsed = 5000\<rparr>"

text \<open>The store after the administrator's login at time 5000, before its audit entry.\<close>

definition logged_in :: db where
  "logged_in = seeded\<lparr>users := [admin\<lparr>u_lastLogin := Some 5000, u_updatedAt := 5000\<rparr>,
                                  retired, manager, coordinator],
                       userSessions := [admin_session], uuid_counter := 1\<rparr>"

definition configured_env :: process_env where
  "configured_env = \<lparr>env_JWT_SECRET = Some ''s1'', env_JWT_REFRESH_SECRET = Some ''s2''\<rparr>"

text \<open>A deployment that sets both variables to the same value.\<close>

definition shared_env :: process_env where
  "shared_env = \<lparr>env_JWT_SECRET = Some ''k'', env_JWT_REFRESH_SECRET = Some ''k''\<rparr>"

text \<open>A stand-in for a route's own handler.\<close>

definition sample_handler :: handler where
  "sample_handler now d req = (message 200 ''handled'', d)"

text \<open>
  The audit row that \<open>authenticate\<close> appends for a user at time \<open>t\<close>, and the seeded store
  after one authenticated request of that user at time 6000.
\<close>

definition api_access :: "nat \<Rightarrow> timestamp \<Rightarrow> User \<Rightarrow> AuditLog" where
  "api_access n t u = \<lparr>a_id = n, a_userId = Some (u_id u), a_action = ''API_ACCESS'',
     a_table = ''users'', a_recordId = Some (u_id u), a_oldValues = None, a_newValues = None,
     a_ipAddress = Some ''10.0.0.1'', a_userAgent = Some ''curl'', a_createdAt = t\<rparr>"

definition visited :: "User \<Rightarrow> db" where
  "visited u = seeded\<lparr>auditLogs := [api_access 0 6000 u], uuid_counter := 1\<rparr>"

text \<open>No space in the claims of a user's tokens: the token is one piece of the header.\<close>

definition spaceless :: "User \<Rightarrow> bool" where
  "spaceless u = (CHR '' '' \<notin> set (u_id u) \<and> CHR '' '' \<notin> set (u_email u)
     \<and> CHR '' '' \<notin> set (u_profile u))"

text \<open>The store after the login, with the session's \<open>expiresAt\<close> long past.\<close>

definition stale :: db where
  "stale = logged_in\<lparr>userSessions := [admin_session\<lparr>s_expiresAt := 1\<rparr>]\<rparr>"

text \<open>A store whose audit appends reject, and the administrator's logout request.\<close>

definition audit_down :: "db \<Rightarrow> db" where
  "audit_down d = d\<lparr>rejecting := {CreateAuditLog}\<rparr>"

definition logout_request :: request where
  "logout_request = (refresh_request (refresh_of admin))\<lparr>req_user := Some (identity_of admin)\<rparr>"

definition demote :: "User \<Rightarrow> string" where
  "demote u = (if u_id u = ''u3'' then ''COORDINATOR'' else u_profile u)"

definition readdress :: "User \<Rightarrow> string" where
  "readdress u = (if u_id u = ''u3'' then ''new@mecone.com'' else u_email u)"

text \<open>The seeded store after the manager has been made a coordinator with a new email.\<close>

definition demoted :: db where
  "demoted = seeded\<lparr>users := map (\<lambda>u. u\<lparr>u_profile := demote u, u_email := readdress u\<rparr>)
                                  (users seeded)\<rparr>"

section \<open>Properties\<close>

subsection \<open>The reference packages and the concrete inputs\<close>

lemma takeWhile_marks:
  "takeWhile (\<lambda>c. c = CHR ''#'') (replicate n CHR ''#'' @ CHR '':'' # t) = replicate n CHR ''#''"
  by (induction n) simp_all

lemma take_field_field: "take_field (field s @ r) = Some (s, r)"
  by (simp add: take_field_def field_def takeWhile_marks)

lemma ref_key_separating: "key_separating ref_libs"
  by (simp add: key_separating_def ref_libs_def ref_verify_def ref_sign_def take_field_field)

lemma unbits_bits: "unbits (bits n) = n"
proof (induction n rule: bits.induct)
  case (1 n)
  show ?case
  proof (cases "n = 0")
    case True
    then show ?thesis by (simp add: bits.simps)
  next
    case False
    with 1 have "unbits (bits (n div 2)) = n div 2" by simp
    with False show ?thesis by (subst bits.simps) (auto; presburger)
  qed
qed

lemma ref_verify_sign:
  "ref_verify (ref_sign p k e t) k' t' =
     (if k = k' \<and> t' div 1000 < t div 1000 + span e then Some p else None)"
  by (simp add: ref_verify_def ref_sign_def take_field_field unbits_bits
        take_field_field [of _ "[]", simplified])

lemma js_split_none: "c \<notin> set s \<Longrightarrow> js_split c s = [s]"
  by (induction s) auto

lemma js_split_prefix: "c \<notin> set p \<Longrightarrow> js_split c (p @ c # s) = p # js_split c s"
  by (induction p) auto

lemma set_field: "set (field s) \<subseteq> {CHR ''#'', CHR '':''} \<union> set s"
  by (auto simp: field_def)

lemma set_bits: "set (bits n) \<subseteq> {CHR ''0'', CHR ''1''}"
proof (induction n rule: bits.induct)
  case (1 n)
  show ?case
  proof (cases "n = 0")
    case True
    then show ?thesis by (simp add: bits.simps)
  next
    case False
    with 1 have "set (bits (n div 2)) \<subseteq> {CHR ''0'', CHR ''1''}" by simp
    with False show ?thesis by (subst bits.simps) auto
  qed
qed

lemma ref_sign_no_space:
  assumes "CHR '' '' \<notin> set k" "CHR '' '' \<notin> set (p_userId p)"
    "CHR '' '' \<notin> set (p_email p)" "CHR '' '' \<notin> set (p_profile p)"
  shows "CHR '' '' \<notin> set (ref_sign p k e t)"
proof -
  have "CHR '' '' \<notin> set (field s)" if "CHR '' '' \<notin> set s" for s
    using that set_field [of s] by auto
  moreover have "CHR '' '' \<notin> set (bits n)" for n
    using set_bits [of n] by auto
  ultimately show ?thesis using assms by (simp add: ref_sign_def)
qed

lemma bearer_token:
  "CHR '' '' \<notin> set t \<Longrightarrow> js_index (js_split CHR '' '' (''Bearer '' @ t)) 1 = Some t"
  using js_split_prefix [of "CHR '' ''" "''Bearer''" t]
  by (simp add: js_split_none js_index_def)

lemma unset_secrets:
  "JWT_SECRET unset_env = ''your-secret-key-change-in-production''"
  "JWT_REFRESH_SECRET unset_env = ''your-refresh-secret-key-change-in-production''"
  by (simp_all add: JWT_SECRET_def JWT_REFRESH_SECRET_def js_or_def unset_env_def)

lemma access_of_bearer:
  "spaceless u \<Longrightarrow>
     js_index (js_split CHR '' '' (''Bearer '' @ access_of u)) 1 = Some (access_of u)"
  by (rule bearer_token)
     (simp add: access_of_def generateTokens_def ref_libs_def ref_sign_no_space unset_secrets
        payload_of_def spaceless_def)

lemma access_of_nonempty: "access_of u \<noteq> []"
  by (simp add: access_of_def generateTokens_def ref_libs_def ref_sign_def field_def)

lemma refresh_of_nonempty: "refresh_of u \<noteq> []"
  by (simp add: refresh_of_def generateTokens_def ref_libs_def ref_sign_def field_def)

lemma verify_access_of:
  "verifyToken ref_libs unset_env t (access_of u) =
     (if t div 1000 < 905 then Some (payload_of u) else None)"
  "verifyRefreshToken ref_libs unset_env t (access_of u) = None"
  by (simp_all add: access_of_def generateTokens_def ref_libs_def verifyToken_def
        verifyRefreshToken_def ref_verify_sign unset_secrets span_def)

lemma verify_refresh_of:
  "verifyRefreshToken ref_libs unset_env t (refresh_of u) =
     (if t div 1000 < 604805 then Some (payload_of u) else None)"
  "verifyToken ref_libs unset_env t (refresh_of u) = None"
  by (simp_all add: refresh_of_def generateTokens_def ref_libs_def verifyToken_def
        verifyRefreshToken_def ref_verify_sign unset_secrets span_def)

lemma spaceless_users:
  "spaceless admin" "spaceless retired" "spaceless manager" "spaceless coordinator"
  "spaceless ghost"
  by (simp_all add: spaceless_def admin_def retired_def manager_def coordinator_def ghost_def)

subsection \<open>Storage\<close>

lemma find_over_map: "find P (map g xs) = map_option g (find (\<lambda>x. P (g x)) xs)"
  by (induction xs) simp_all

lemma find_unique:
  assumes "distinct (map k xs)" and "s \<in> set xs" and "P s" and "\<forall>x. P x \<longrightarrow> k x = k s"
  shows "find P xs = Some s"
  using assms(1,2)
proof (induction xs)
  case Nil
  then show ?case by simp
next
  case (Cons x xs)
  show ?case
  proof (cases "x = s")
    case True
    with assms(3) show ?thesis by simp
  next
    case False
    with Cons.prems have inside: "s \<in> set xs" by simp
    from Cons.prems(1) have rest: "distinct (map k xs)" and fresh: "k x \<notin> k ` set xs"
      by simp_all
    from inside fresh have "k x \<noteq> k s" by blast
    with assms(4) have "\<not> P x" by blast
    with Cons.IH [OF rest inside] show ?thesis by simp
  qed
qed

lemma seeded_lookup:
  "getUserByEmail seeded ''nobody@mecone.com'' = Inr None"
  "getUserByEmail seeded ''old@mecone.com'' = Inr (Some retired)"
  "getUserByEmail seeded ''admin@mecone.com'' = Inr (Some admin)"
  by (simp_all add: getUserByEmail_def seeded_def admin_def retired_def manager_def
        coordinator_def)

lemma seeded_getUser:
  "getUser seeded ''u1'' = Inr (Some admin)"
  "getUser seeded ''u2'' = Inr (Some retired)"
  "getUser seeded ''u3'' = Inr (Some manager)"
  "getUser seeded ''u4'' = Inr (Some coordinator)"
  "getUser seeded ''u9'' = Inr None"
  by (simp_all add: getUser_def seeded_def admin_def retired_def manager_def coordinator_def)

lemma seeded_active_ids:
  "getUser seeded (u_id admin) = Inr (Some admin)" "u_isActive admin"
  "getUser seeded (u_id manager) = Inr (Some manager)" "u_isActive manager"
  "getUser seeded (u_id coordinator) = Inr (Some coordinator)" "u_isActive coordinator"
  by (simp_all add: getUser_def seeded_def admin_def retired_def manager_def coordinator_def)

lemma logged_in_lookups:
  "getActiveSession logged_in (refresh_of admin) = Inr (Some admin_session)"
  "getUser logged_in (p_userId (payload_of admin)) =
     Inr (Some (admin\<lparr>u_lastLogin := Some 5000, u_updatedAt := 5000\<rparr>))"
  by (simp_all add: getActiveSession_def getUser_def logged_in_def seeded_def admin_session_def
        payload_of_def admin_def)

lemma rejecting_kept:
  "updateUserLastLogin now d i t = Inr d' \<Longrightarrow> rejecting d' = rejecting d"
  "createSession now d i tok ex ip ua = Inr d' \<Longrightarrow> rejecting d' = rejecting d"
  "deactivateSession d tok = Inr d' \<Longrightarrow> rejecting d' = rejecting d"
  "createAuditLog now d entry = Inr d' \<Longrightarrow> rejecting d' = rejecting d"
  by (auto simp: updateUserLastLogin_def createSession_def deactivateSession_def
        createAuditLog_def split: if_splits)

lemma createAuditLog_rejects:
  "CreateAuditLog \<in> rejecting d \<Longrightarrow> createAuditLog now d entry = Inl StorageUnavailable"
  by (simp add: createAuditLog_def)

lemma getActiveSession_found:
  assumes "getActiveSession d token = Inr (Some s)"
  shows "s \<in> set (userSessions d) \<and> s_token s = token \<and> s_isActive s"
proof -
  from assms have "find (\<lambda>s. s_token s = token \<and> s_isActive s = True) (userSessions d) = Some s"
    by (simp add: getActiveSession_def split: if_splits)
  then show ?thesis by (auto simp: find_Some_iff)
qed

lemma getActiveSession_expiry:
  "getActiveSession (d\<lparr>userSessions := map (\<lambda>x. x\<lparr>s_expiresAt := f x\<rparr>) (userSessions d)\<rparr>) token
     = map_sum id (map_option (\<lambda>x. x\<lparr>s_expiresAt := f x\<rparr>)) (getActiveSession d token)"
  by (simp add: getActiveSession_def find_over_map)

lemma getUser_sessions:
  "getUser (d\<lparr>userSessions := ss\<rparr>) i = getUser d i"
  by (simp add: getUser_def)

subsection \<open>The handlers on the passing path and with the audit store down\<close>

lemma authenticate_pass:
  assumes "req_authorization req = Some h" and "h \<noteq> []"
    and "js_index (js_split CHR '' '' h) 1 = Some token" and "token \<noteq> []"
    and "verifyToken L E now token = Some payload"
    and "getUser d (p_userId payload) = Inr (Some user)" and "u_isActive user"
    and "createAuditLog now d
            \<lparr>l_userId = Some (p_userId payload), l_action = ''API_ACCESS'',
             l_table = ''users'', l_recordId = Some (p_userId payload),
             l_oldValues = None, l_newValues = None,
             l_ipAddress = req_ip req, l_userAgent = req_userAgent req\<rparr> = Inr d'"
  shows "authenticate L E now d req
        = (Next (req\<lparr>req_user := Some \<lparr>i_id = p_userId payload, i_email = p_email payload,
                                        i_profile = p_profile payload\<rparr>\<rparr>), d')"
  using assms by (simp add: authenticate_def)

lemma authenticate_seeded:
  assumes "getUser seeded (u_id u) = Inr (Some u)" and "u_isActive u" and "spaceless u"
  shows "authenticate ref_libs unset_env 6000 seeded (bearer (''Bearer '' @ access_of u))
       = (Next ((bearer (''Bearer '' @ access_of u))\<lparr>req_user := Some (identity_of u)\<rparr>),
          visited u)"
proof -
  have "authenticate ref_libs unset_env 6000 seeded (bearer (''Bearer '' @ access_of u))
       = (Next ((bearer (''Bearer '' @ access_of u))
            \<lparr>req_user := Some \<lparr>i_id = p_userId (payload_of u), i_email = p_email (payload_of u),
                                        i_profile = p_profile (payload_of u)\<rparr>\<rparr>), visited u)"
  proof (rule authenticate_pass [where h = "''Bearer '' @ access_of u"
            and token = "access_of u" and user = u])
    show "js_index (js_split CHR '' '' (''Bearer '' @ access_of u)) 1 = Some (access_of u)"
      using assms(3) by (rule access_of_bearer)
    show "getUser seeded (p_userId (payload_of u)) = Inr (Some u)"
      using assms(1) by (simp add: payload_of_def)
    show "createAuditLog 6000 seeded
     \<lparr>l_userId = Some (p_userId (payload_of u)), l_action = ''API_ACCESS'',
        l_table = ''users'', l_recordId = Some (p_userId (payload_of u)),
        l_oldValues = None, l_newValues = None,
        l_ipAddress = req_ip (bearer (''Bearer '' @ access_of u)),
        l_userAgent = req_userAgent (bearer (''Bearer '' @ access_of u))\<rparr> =
    Inr (visited u)"
      by (simp add: createAuditLog_def seeded_def visited_def api_access_def bearer_def
            plain_request_def payload_of_def)
  qed (simp_all add: bearer_def access_of_nonempty verify_access_of assms)
  then show ?thesis by (simp add: payload_of_def identity_of_def)
qed

lemma authenticate_audit_down:
  assumes "CreateAuditLog \<in> rejecting d"
  shows "\<exists>m. authenticate L E now d req = (Respond (message 401 m), d)"
  using assms
  by (auto simp: authenticate_def createAuditLog_rejects split: option.splits sum.splits)

lemma refresh_pass:
  assumes "body_refreshToken req = Some token" and "token \<noteq> []"
    and "verifyRefreshToken L E now token = Some payload"
    and "getActiveSession d token = Inr (Some session)"
    and "getUser d (p_userId payload) = Inr (Some user)" and "u_isActive user"
  shows "refresh L E now d req =
     (\<lparr>res_status = 200,
       res_body = JObject
         [(''accessToken'', JString (accessToken (generateTokens L E now (payload_of user)))),
          (''refreshToken'', JString (refreshToken (generateTokens L E now (payload_of user))))]\<rparr>,
      d)"
  using assms by (simp add: refresh_def payload_of_def Let_def)

lemma refresh_logged_in:
  "refresh ref_libs unset_env 6000 logged_in (refresh_request (refresh_of admin)) =
     (\<lparr>res_status = 200,
       res_body = JObject
         [(''accessToken'',
             JString (accessToken (generateTokens ref_libs unset_env 6000 (payload_of admin)))),
          (''refreshToken'',
             JString (refreshToken (generateTokens ref_libs unset_env 6000 (payload_of admin))))]\<rparr>,
      logged_in)"
proof -
  have "payload_of (admin\<lparr>u_lastLogin := Some 5000, u_updatedAt := 5000\<rparr>) = payload_of admin"
    by (simp add: payload_of_def)
  moreover have "refresh ref_libs unset_env 6000 logged_in (refresh_request (refresh_of admin)) =
     (\<lparr>res_status = 200,
       res_body = JObject
         [(''accessToken'', JString (accessToken (generateTokens ref_libs unset_env 6000
             (payload_of (admin\<lparr>u_lastLogin := Some 5000, u_updatedAt := 5000\<rparr>))))),
          (''refreshToken'', JString (refreshToken (generateTokens ref_libs unset_env 6000
             (payload_of (admin\<lparr>u_lastLogin := Some 5000, u_updatedAt := 5000\<rparr>)))))]\<rparr>,
      logged_in)"
    by (rule refresh_pass [where token = "refresh_of admin" and payload = "payload_of admin",
          OF _ _ _ logged_in_lookups])
       (simp_all add: refresh_request_def plain_request_def refresh_of_nonempty
          verify_refresh_of admin_def)
  ultimately show ?thesis by simp
qed

lemma refresh_expiry:
  "fst (refresh L E now (d\<lparr>userSessions := map (\<lambda>x. x\<lparr>s_expiresAt := f x\<rparr>) (userSessions d)\<rparr>) req)
     = fst (refresh L E now d req)"
proof (cases "getActiveSession d (the (body_refreshToken req))")
  case (Inl e)
  then show ?thesis
    by (simp add: refresh_def getActiveSession_expiry getUser_sessions Let_def
          split: option.splits sum.splits)
next
  case (Inr r)
  then show ?thesis
    by (cases r)
       (simp_all add: refresh_def getActiveSession_expiry getUser_sessions Let_def
          split: option.splits sum.splits)
qed

lemma login_admin_audit_down:
  "login ref_libs unset_env 5000 (audit_down seeded)
      (login_request ''admin@mecone.com'' ''admin123'')
     = (message 500 ''Internal server error'', audit_down logged_in)"
  by (simp add: login_def getUserByEmail_def audit_down_def seeded_def admin_def
        login_request_def comparePassword_def ref_libs_def ref_compare_def
        updateUserLastLogin_def createSession_def createAuditLog_def logged_in_def
        admin_session_def refresh_of_def payload_of_def Let_def retired_def manager_def
        coordinator_def)

lemma login_admin_ok:
  "res_status (fst (login ref_libs unset_env 5000 seeded
      (login_request ''admin@mecone.com'' ''admin123''))) = 200"
  by (simp add: login_def getUserByEmail_def seeded_def admin_def
        login_request_def comparePassword_def ref_libs_def ref_compare_def
        updateUserLastLogin_def createSession_def createAuditLog_def Let_def)

lemma logout_admin_audit_down:
  "logout 6000 (audit_down logged_in) logout_request
     = (message 500 ''Internal server error'',
        audit_down (logged_in\<lparr>userSessions := [admin_session\<lparr>s_isActive := False\<rparr>]\<rparr>))"
  by (simp add: logout_def logout_request_def refresh_request_def plain_request_def
        refresh_of_nonempty deactivateSession_def createAuditLog_def audit_down_def
        logged_in_def admin_session_def)

subsection \<open>Login failures\<close>

text \<open>
  Claim C1. A login request that reaches credential verification and fails there gets the
  same answer in each failing case: whether no user has the email, the user is inactive,
  or the password does not match, the response is 401 with body
  \<open>{"message":"Invalid credentials"}\<close>, and the store is left as it was.
\<close>

theorem login_invalid_credentials_uniform:
  assumes "body_email req = Some email" and "body_password req = Some password"
    and "email \<noteq> []" and "password \<noteq> []"
    and "getUserByEmail d email = Inr found"
    and "found = None \<or> (\<exists>user. found = Some user \<and>
           (\<not> u_isActive user \<or> \<not> comparePassword L password (u_password user)))"
  shows "login L E now d req = (message 401 ''Invalid credentials'', d)"
  using assms by (auto simp: login_def)

theorem login_invalid_credentials_uniform_witness:
  "login ref_libs unset_env 5000 seeded (login_request ''nobody@mecone.com'' ''admin123'')
     = (message 401 ''Invalid credentials'', seeded)
   \<and> login ref_libs unset_env 5000 seeded (login_request ''old@mecone.com'' ''admin123'')
     = (message 401 ''Invalid credentials'', seeded)
   \<and> login ref_libs unset_env 5000 seeded (login_request ''admin@mecone.com'' ''wrong'')
     = (message 401 ''Invalid credentials'', seeded)"
proof (intro conjI)
  show "login ref_libs unset_env 5000 seeded (login_request ''nobody@mecone.com'' ''admin123'')
     = (message 401 ''Invalid credentials'', seeded)"
    using login_invalid_credentials_uniform
      [where req = "login_request ''nobody@mecone.com'' ''admin123''"
         and email = "''nobody@mecone.com''" and password = "''admin123''"
         and d = seeded and found = None and L = ref_libs and E = unset_env and now = 5000]
      seeded_lookup(1)
    by (simp add: login_request_def)
  show "login ref_libs unset_env 5000 seeded (login_request ''old@mecone.com'' ''admin123'')
     = (message 401 ''Invalid credentials'', seeded)"
    using login_invalid_credentials_uniform
      [where req = "login_request ''old@mecone.com'' ''admin123''"
         and email = "''old@mecone.com''" and password = "''admin123''"
         and d = seeded and found = "Some retired" and L = ref_libs and E = unset_env
         and now = 5000]
      seeded_lookup(2)
    by (simp add: login_request_def retired_def admin_def)
  show "login ref_libs unset_env 5000 seeded (login_request ''admin@mecone.com'' ''wrong'')
     = (message 401 ''Invalid credentials'', seeded)"
    using login_invalid_credentials_uniform
      [where req = "login_request ''admin@mecone.com'' ''wrong''"
         and email = "''admin@mecone.com''" and password = "''wrong''"
         and d = seeded and found = "Some admin" and L = ref_libs and E = unset_env
         and now = 5000]
      seeded_lookup(3)
    by (simp add: login_request_def admin_def comparePassword_def ref_libs_def ref_compare_def)
qed

subsection \<open>The authentication gate\<close>

text \<open>
  Claim C2. The authentication gate rejects with 401 and a message of its own at each
  stage, in this order: no \<open>Authorization\<close> header (the code's test \<open>!authHeader\<close> also
  holds of an empty header value); a header without a token part (no second
  space-separated piece, or an empty one); a token that fails access-token verification;
  a valid token whose user is not found or is inactive. Otherwise it attaches the identity
  to the request and calls the next handler, once the lookup and the \<open>API_ACCESS\<close>
  audit append have resolved. Each stage is reached only when the earlier ones passed, and
  a rejecting stage leaves the store as it was.
\<close>

theorem authenticate_stages:
  "(req_authorization req = None \<or> req_authorization req = Some [] \<longrightarrow>
      authenticate L E now d req
        = (Respond (message 401 ''No authorization header provided''), d))
   \<and> (req_authorization req = Some h \<and> h \<noteq> [] \<and>
          (js_index (js_split CHR '' '' h) 1 = None \<or>
           js_index (js_split CHR '' '' h) 1 = Some []) \<longrightarrow>
      authenticate L E now d req = (Respond (message 401 ''No token provided''), d))
   \<and> (req_authorization req = Some h \<and> h \<noteq> [] \<and>
          js_index (js_split CHR '' '' h) 1 = Some token \<and> token \<noteq> [] \<and>
          verifyToken L E now token = None \<longrightarrow>
      authenticate L E now d req = (Respond (message 401 ''Invalid or expired token''), d))
   \<and> (req_authorization req = Some h \<and> h \<noteq> [] \<and>
          js_index (js_split CHR '' '' h) 1 = Some token \<and> token \<noteq> [] \<and>
          verifyToken L E now token = Some payload \<and>
          getUser d (p_userId payload) = Inr found \<and>
          (found = None \<or> (\<exists>user. found = Some user \<and> \<not> u_isActive user)) \<longrightarrow>
      authenticate L E now d req
        = (Respond (message 401 ''User not found or inactive''), d))
   \<and> (req_authorization req = Some h \<and> h \<noteq> [] \<and>
          js_index (js_split CHR '' '' h) 1 = Some token \<and> token \<noteq> [] \<and>
          verifyToken L E now token = Some payload \<and>
          getUser d (p_userId payload) = Inr (Some user) \<and> u_isActive user \<and>
          createAuditLog now d
            \<lparr>l_userId = Some (p_userId payload), l_action = ''API_ACCESS'',
             l_table = ''users'', l_recordId = Some (p_userId payload),
             l_oldValues = None, l_newValues = None,
             l_ipAddress = req_ip req, l_userAgent = req_userAgent req\<rparr> = Inr d' \<longrightarrow>
      authenticate L E now d req
        = (Next (req\<lparr>req_user := Some \<lparr>i_id = p_userId payload, i_email = p_email payload,
                                        i_profile = p_profile payload\<rparr>\<rparr>), d'))"
  by (auto simp: authenticate_def)

theorem authenticate_stages_witness:
  "authenticate ref_libs unset_env 6000 seeded plain_request
     = (Respond (message 401 ''No authorization header provided''), seeded)
   \<and> authenticate ref_libs unset_env 6000 seeded (bearer [])
     = (Respond (message 401 ''No authorization header provided''), seeded)
   \<and> authenticate ref_libs unset_env 6000 seeded (bearer ''Bearer'')
     = (Respond (message 401 ''No token provided''), seeded)
   \<and> authenticate ref_libs unset_env 1000000 seeded (bearer (''Bearer '' @ access_of admin))
     = (Respond (message 401 ''Invalid or expired token''), seeded)
   \<and> authenticate ref_libs unset_env 6000 seeded (bearer (''Bearer '' @ access_of ghost))
     = (Respond (message 401 ''User not found or inactive''), seeded)
   \<and> authenticate ref_libs unset_env 6000 seeded (bearer (''Bearer '' @ access_of retired))
     = (Respond (message 401 ''User not found or inactive''), seeded)
   \<and> authenticate ref_libs unset_env 6000 seeded (bearer (''Bearer '' @ access_of admin))
     = (Next ((bearer (''Bearer '' @ access_of admin))\<lparr>req_user := Some (identity_of admin)\<rparr>),
        visited admin)"
proof (intro conjI)
  show "authenticate ref_libs unset_env 6000 seeded plain_request
     = (Respond (message 401 ''No authorization header provided''), seeded)"
    using authenticate_stages [where req = plain_request and L = ref_libs and E = unset_env
        and now = 6000 and d = seeded]
    by (simp add: plain_request_def)
  show "authenticate ref_libs unset_env 6000 seeded (bearer [])
     = (Respond (message 401 ''No authorization header provided''), seeded)"
    using authenticate_stages [where req = "bearer []" and L = ref_libs and E = unset_env
        and now = 6000 and d = seeded]
    by (simp add: bearer_def)
  show "authenticate ref_libs unset_env 6000 seeded (bearer ''Bearer'')
     = (Respond (message 401 ''No token provided''), seeded)"
    using authenticate_stages [where req = "bearer ''Bearer''" and L = ref_libs
        and E = unset_env and now = 6000 and d = seeded and h = "''Bearer''"]
    by (simp add: bearer_def js_index_def)
  show "authenticate ref_libs unset_env 1000000 seeded (bearer (''Bearer '' @ access_of admin))
     = (Respond (message 401 ''Invalid or expired token''), seeded)"
    using authenticate_stages [where req = "bearer (''Bearer '' @ access_of admin)"
        and L = ref_libs and E = unset_env and now = 1000000 and d = seeded
        and h = "''Bearer '' @ access_of admin" and token = "access_of admin"]
      access_of_bearer [OF spaceless_users(1)]
    by (simp add: bearer_def access_of_nonempty verify_access_of)
  show "authenticate ref_libs unset_env 6000 seeded (bearer (''Bearer '' @ access_of ghost))
     = (Respond (message 401 ''User not found or inactive''), seeded)"
    using authenticate_stages [where req = "bearer (''Bearer '' @ access_of ghost)"
        and L = ref_libs and E = unset_env and now = 6000 and d = seeded
        and h = "''Bearer '' @ access_of ghost" and token = "access_of ghost"
        and payload = "payload_of ghost" and found = None]
      access_of_bearer [OF spaceless_users(5)] seeded_getUser(5)
    by (simp add: bearer_def access_of_nonempty verify_access_of payload_of_def ghost_def
          admin_def)
  show "authenticate ref_libs unset_env 6000 seeded (bearer (''Bearer '' @ access_of retired))
     = (Respond (message 401 ''User not found or inactive''), seeded)"
    using authenticate_stages [where req = "bearer (''Bearer '' @ access_of retired)"
        and L = ref_libs and E = unset_env and now = 6000 and d = seeded
        and h = "''Bearer '' @ access_of retired" and token = "access_of retired"
        and payload = "payload_of retired" and found = "Some retired"]
      access_of_bearer [OF spaceless_users(2)] seeded_getUser(2)
    by (simp add: bearer_def access_of_nonempty verify_access_of payload_of_def retired_def
          admin_def)
  show "authenticate ref_libs unset_env 6000 seeded (bearer (''Bearer '' @ access_of admin))
     = (Next ((bearer (''Bearer '' @ access_of admin))\<lparr>req_user := Some (identity_of admin)\<rparr>),
        visited admin)"
    using authenticate_stages [where req = "bearer (''Bearer '' @ access_of admin)"
        and L = ref_libs and E = unset_env and now = 6000 and d = seeded
        and h = "''Bearer '' @ access_of admin" and token = "access_of admin"
        and payload = "payload_of admin" and user = admin and d' = "visited admin"]
      access_of_bearer [OF spaceless_users(1)] seeded_getUser(1)
    by (simp add: bearer_def access_of_nonempty verify_access_of payload_of_def admin_def
          identity_of_def createAuditLog_def seeded_def visited_def api_access_def
          plain_request_def)
qed

subsection \<open>Token isolation\<close>

text \<open>
  Claim C3. For every payload the two tokens of a pair are not interchangeable: the access
  token fails \<open>verifyRefreshToken\<close> and the refresh token fails \<open>verifyToken\<close>,
  although they carry the same claims. This fails when both variables hold the same
  value, which the module does not exclude: each token of the pair then verifies as the
  other kind and yields the payload.
\<close>

theorem token_isolation_counterexample:
  "JWT_SECRET shared_env = JWT_REFRESH_SECRET shared_env
   \<and> verifyRefreshToken ref_libs shared_env 6000
        (accessToken (generateTokens ref_libs shared_env 5000 (payload_of admin)))
        = Some (payload_of admin)
   \<and> verifyToken ref_libs shared_env 6000
        (refreshToken (generateTokens ref_libs shared_env 5000 (payload_of admin)))
        = Some (payload_of admin)"
  by (simp add: shared_env_def generateTokens_def verifyToken_def verifyRefreshToken_def
        ref_libs_def JWT_SECRET_def JWT_REFRESH_SECRET_def js_or_def ref_verify_sign span_def)

text \<open>
  Claim C3, amended. Whenever the two configured secrets differ, as the constants written
  in the module do, and the signature scheme does not verify a token under a secret other
  than the one that signed it, then for every payload the access token fails
  \<open>verifyRefreshToken\<close> and the refresh token fails \<open>verifyToken\<close> (both return the
  invalid sentinel), although they carry the same claims. The module does not require the
  secrets to differ: when they are equal, \<open>verifyToken\<close> and \<open>verifyRefreshToken\<close>
  give the same answer on every token, whatever the signature scheme.
\<close>

theorem token_isolation:
  "(key_separating L \<and> JWT_SECRET E \<noteq> JWT_REFRESH_SECRET E \<longrightarrow>
      verifyRefreshToken L E t' (accessToken (generateTokens L E t payload)) = None
      \<and> verifyToken L E t' (refreshToken (generateTokens L E t payload)) = None)
   \<and> (env_JWT_SECRET E = None \<and> env_JWT_REFRESH_SECRET E = None \<longrightarrow>
      JWT_SECRET E \<noteq> JWT_REFRESH_SECRET E)
   \<and> (JWT_SECRET E = JWT_REFRESH_SECRET E \<longrightarrow>
      verifyRefreshToken L E t' token = verifyToken L E t' token)"
proof (intro conjI impI)
  assume "key_separating L \<and> JWT_SECRET E \<noteq> JWT_REFRESH_SECRET E"
  then have sep: "key_separating L" and ne: "JWT_SECRET E \<noteq> JWT_REFRESH_SECRET E"
    and ne': "JWT_REFRESH_SECRET E \<noteq> JWT_SECRET E"
    by auto
  from sep ne
  show "verifyRefreshToken L E t' (accessToken (generateTokens L E t payload)) = None"
    by (simp add: key_separating_def verifyRefreshToken_def generateTokens_def)
  from sep ne'
  show "verifyToken L E t' (refreshToken (generateTokens L E t payload)) = None"
    by (simp add: key_separating_def verifyToken_def generateTokens_def)
next
  assume "env_JWT_SECRET E = None \<and> env_JWT_REFRESH_SECRET E = None"
  then show "JWT_SECRET E \<noteq> JWT_REFRESH_SECRET E"
    by (simp add: JWT_SECRET_def JWT_REFRESH_SECRET_def js_or_def)
next
  assume "JWT_SECRET E = JWT_REFRESH_SECRET E"
  then show "verifyRefreshToken L E t' token = verifyToken L E t' token"
    by (simp add: verifyRefreshToken_def verifyToken_def)
qed

theorem token_isolation_witness:
  "key_separating ref_libs \<and> JWT_SECRET unset_env \<noteq> JWT_REFRESH_SECRET unset_env
   \<and> verifyRefreshToken ref_libs unset_env 6000
        (accessToken (generateTokens ref_libs unset_env 5000 (payload_of admin))) = None
   \<and> verifyToken ref_libs unset_env 6000
        (refreshToken (generateTokens ref_libs unset_env 5000 (payload_of admin))) = None
   \<and> verifyToken ref_libs unset_env 6000
        (accessToken (generateTokens ref_libs unset_env 5000 (payload_of admin)))
        = Some (payload_of admin)
   \<and> verifyRefreshToken ref_libs unset_env 6000
        (refreshToken (generateTokens ref_libs unset_env 5000 (payload_of admin)))
        = Some (payload_of admin)
   \<and> verifyRefreshToken ref_libs shared_env 6000 (access_of admin)
        = verifyToken ref_libs shared_env 6000 (access_of admin)"
proof -
  have unset: "env_JWT_SECRET unset_env = None \<and> env_JWT_REFRESH_SECRET unset_env = None"
    by (simp add: unset_env_def)
  have differ: "JWT_SECRET unset_env \<noteq> JWT_REFRESH_SECRET unset_env"
    by (rule token_isolation [THEN conjunct2, THEN conjunct1, THEN mp, OF unset])
  have isolated:
    "verifyRefreshToken ref_libs unset_env 6000
        (accessToken (generateTokens ref_libs unset_env 5000 (payload_of admin))) = None
     \<and> verifyToken ref_libs unset_env 6000
        (refreshToken (generateTokens ref_libs unset_env 5000 (payload_of admin))) = None"
    by (rule token_isolation [THEN conjunct1, THEN mp, OF conjI [OF ref_key_separating differ]])
  have shared: "JWT_SECRET shared_env = JWT_REFRESH_SECRET shared_env"
    by (simp add: shared_env_def JWT_SECRET_def JWT_REFRESH_SECRET_def js_or_def)
  have coincide: "verifyRefreshToken ref_libs shared_env 6000 (access_of admin)
        = verifyToken ref_libs shared_env 6000 (access_of admin)"
    by (rule token_isolation [THEN conjunct2, THEN conjunct2, THEN mp, OF shared])
  have own: "verifyToken ref_libs unset_env 6000
        (accessToken (generateTokens ref_libs unset_env 5000 (payload_of admin)))
        = Some (payload_of admin)"
    "verifyRefreshToken ref_libs unset_env 6000
        (refreshToken (generateTokens ref_libs unset_env 5000 (payload_of admin)))
        = Some (payload_of admin)"
    using verify_access_of(1) [of 6000 admin] verify_refresh_of(1) [of 6000 admin]
    by (simp_all add: access_of_def refresh_of_def)
  from ref_key_separating differ isolated own coincide show ?thesis by (intro conjI) simp_all
qed

subsection \<open>Refresh and the session store\<close>

text \<open>
  Claim C4. A successful refresh leaves the session store as it was: the response carries
  a new token pair, but no session row is created for the new refresh token and the row of
  the old one is neither deactivated nor replaced, so the old refresh token still has its
  active session afterwards.
\<close>

theorem refresh_keeps_sessions:
  assumes "res_status (fst (refresh L E now d req)) = 200"
  shows "snd (refresh L E now d req) = d
     \<and> (\<exists>token session user.
           body_refreshToken req = Some token
         \<and> getActiveSession d token = Inr (Some session)
         \<and> getActiveSession (snd (refresh L E now d req)) token = Inr (Some session)
         \<and> fst (refresh L E now d req) =
             \<lparr>res_status = 200,
              res_body = JObject
                [(''accessToken'',
                    JString (accessToken (generateTokens L E now (payload_of user)))),
                 (''refreshToken'',
                    JString (refreshToken (generateTokens L E now (payload_of user))))]\<rparr>)"
proof -
  have frame: "snd (refresh L E now d req) = d"
    by (simp add: refresh_def Let_def split: option.splits sum.splits)
  obtain token where token: "body_refreshToken req = Some token" "token \<noteq> []"
    using assms
    by (cases "body_refreshToken req") (auto simp: refresh_def message_def split: if_splits)
  obtain payload where payload: "verifyRefreshToken L E now token = Some payload"
    using assms token
    by (cases "verifyRefreshToken L E now token") (auto simp: refresh_def message_def)
  obtain session where session: "getActiveSession d token = Inr (Some session)"
    using assms token payload
    by (cases "getActiveSession d token")
       (auto simp: refresh_def message_def split: option.splits)
  obtain user where user: "getUser d (p_userId payload) = Inr (Some user)" "u_isActive user"
    using assms token payload session
    by (cases "getUser d (p_userId payload)")
       (auto simp: refresh_def message_def split: option.splits if_splits)
  from refresh_pass [OF token payload session user] frame token session
  show ?thesis by auto
qed

theorem refresh_keeps_sessions_witness:
  "res_status (fst (refresh ref_libs unset_env 6000 logged_in
       (refresh_request (refresh_of admin)))) = 200
   \<and> snd (refresh ref_libs unset_env 6000 logged_in (refresh_request (refresh_of admin)))
       = logged_in
   \<and> userSessions (snd (refresh ref_libs unset_env 6000 logged_in
       (refresh_request (refresh_of admin)))) = [admin_session]
   \<and> getActiveSession (snd (refresh ref_libs unset_env 6000 logged_in
       (refresh_request (refresh_of admin)))) (refresh_of admin) = Inr (Some admin_session)"
proof -
  have ok: "res_status (fst (refresh ref_libs unset_env 6000 logged_in
       (refresh_request (refresh_of admin)))) = 200"
    by (simp add: refresh_logged_in)
  from refresh_keeps_sessions [OF ok]
  have same: "snd (refresh ref_libs unset_env 6000 logged_in
       (refresh_request (refresh_of admin))) = logged_in"
    by (rule conjunct1)
  have "userSessions logged_in = [admin_session]"
    by (simp add: logged_in_def)
  with ok same logged_in_lookups(1) show ?thesis by simp
qed

text \<open>
  Claim C5. \<open>getActiveSession\<close> returns a session exactly when its token is the one
  asked for and its \<open>isActive\<close> flag is true; the stored \<open>expiresAt\<close> plays no part:
  changing every row's \<open>expiresAt\<close> changes nothing but that field of the result, so an
  active session that expired long ago is still returned, and the response of the refresh
  flow does not depend on any \<open>expiresAt\<close>.
\<close>

theorem getActiveSession_ignores_expiry:
  "(getActiveSession d token = Inr (Some s) \<longrightarrow>
      s \<in> set (userSessions d) \<and> s_token s = token \<and> s_isActive s)
   \<and> (GetActiveSession \<notin> rejecting d \<and> distinct (map s_token (userSessions d)) \<and>
       s \<in> set (userSessions d) \<and> s_token s = token \<and> s_isActive s \<longrightarrow>
      getActiveSession d token = Inr (Some s))
   \<and> getActiveSession
         (d\<lparr>userSessions := map (\<lambda>x. x\<lparr>s_expiresAt := f x\<rparr>) (userSessions d)\<rparr>) token
       = map_sum id (map_option (\<lambda>x. x\<lparr>s_expiresAt := f x\<rparr>)) (getActiveSession d token)
   \<and> fst (refresh L E now
         (d\<lparr>userSessions := map (\<lambda>x. x\<lparr>s_expiresAt := f x\<rparr>) (userSessions d)\<rparr>) req)
       = fst (refresh L E now d req)"
proof (intro conjI impI)
  assume "getActiveSession d token = Inr (Some s)"
  then show "s \<in> set (userSessions d)" "s_token s = token" "s_isActive s"
    by (simp_all add: getActiveSession_found)
next
  assume a: "GetActiveSession \<notin> rejecting d \<and> distinct (map s_token (userSessions d)) \<and>
       s \<in> set (userSessions d) \<and> s_token s = token \<and> s_isActive s"
  then have "find (\<lambda>x. s_token x = token \<and> s_isActive x = True) (userSessions d) = Some s"
    by (intro find_unique [where k = s_token]) auto
  with a show "getActiveSession d token = Inr (Some s)"
    by (simp add: getActiveSession_def)
qed (rule getActiveSession_expiry refresh_expiry)+

theorem getActiveSession_ignores_expiry_witness:
  "s_expiresAt (admin_session\<lparr>s_expiresAt := 1\<rparr>) < 6000
   \<and> getActiveSession stale (refresh_of admin) = Inr (Some (admin_session\<lparr>s_expiresAt := 1\<rparr>))
   \<and> s_isActive (admin_session\<lparr>s_expiresAt := 1\<rparr>)
   \<and> fst (refresh ref_libs unset_env 6000 stale (refresh_request (refresh_of admin)))
       = fst (refresh ref_libs unset_env 6000 logged_in (refresh_request (refresh_of admin)))
   \<and> res_status (fst (refresh ref_libs unset_env 6000 stale
        (refresh_request (refresh_of admin)))) = 200"
proof -
  let ?s = "admin_session\<lparr>s_expiresAt := 1\<rparr>"
  note facts = getActiveSession_ignores_expiry [where d = stale and token = "refresh_of admin"
      and s = ?s]
  have found: "getActiveSession stale (refresh_of admin) = Inr (Some ?s)"
    by (rule facts [THEN conjunct2, THEN conjunct1, THEN mp])
       (simp add: stale_def logged_in_def seeded_def admin_session_def)
  from facts [THEN conjunct1, THEN mp, OF found] have active: "s_isActive ?s"
    by simp
  have stale: "stale = logged_in\<lparr>userSessions :=
      map (\<lambda>x. x\<lparr>s_expiresAt := 1\<rparr>) (userSessions logged_in)\<rparr>"
    by (simp add: stale_def logged_in_def)
  have same: "fst (refresh ref_libs unset_env 6000 stale (refresh_request (refresh_of admin)))
       = fst (refresh ref_libs unset_env 6000 logged_in (refresh_request (refresh_of admin)))"
    unfolding stale
    by (rule getActiveSession_ignores_expiry [where d = logged_in and f = "\<lambda>x. 1",
          THEN conjunct2, THEN conjunct2, THEN conjunct2])
  from found active same show ?thesis
    by (simp add: refresh_logged_in)
qed

subsection \<open>The authorization gate\<close>

text \<open>
  Claim C6. The authorization gate is a function of the attached identity and the allow-set
  alone: without an identity it answers 401 "Not authenticated"; with an identity whose
  role is not in the allow-set it answers 403 "Insufficient permissions"; otherwise it calls
  the next handler with the request as it received it. Two requests with the same
  \<open>req.user\<close> get the same decision. In a route \<open>authenticate, authorize(profiles),
  handler\<close> the gate hands on, or returns, the store exactly as \<open>authenticate\<close> left it:
  it appends no audit entry and has no other effect.
\<close>

theorem authorize_gate:
  "(req_user req = None \<longrightarrow>
      authorize profiles req = Respond (message 401 ''Not authenticated''))
   \<and> (req_user req = Some user \<and> i_profile user \<notin> set profiles \<longrightarrow>
        authorize profiles req = Respond (message 403 ''Insufficient permissions''))
   \<and> (req_user req = Some user \<and> i_profile user \<in> set profiles \<longrightarrow>
        authorize profiles req = Next req)
   \<and> (req_user req' = req_user req \<longrightarrow>
        (authorize profiles req' = Next req') = (authorize profiles req = Next req) \<and>
        (authorize profiles req' = Respond r) = (authorize profiles req = Respond r))
   \<and> (authenticate L E now d req0 = (Next req, d1) \<longrightarrow>
        authorized L E profiles h now d req0 =
          (case authorize profiles req of
             Respond r \<Rightarrow> (r, d1)
           | Next req2 \<Rightarrow> h now d1 req))"
  by (auto simp: authorize_def authorized_def split: option.splits)

theorem authorize_gate_witness:
  "authorize [''ADMINISTRATOR'', ''MANAGER''] plain_request
     = Respond (message 401 ''Not authenticated'')
   \<and> authorize [''ADMINISTRATOR'', ''MANAGER'']
        (plain_request\<lparr>req_user := Some (identity_of coordinator)\<rparr>)
     = Respond (message 403 ''Insufficient permissions'')
   \<and> authorize [''ADMINISTRATOR'', ''MANAGER'']
        (plain_request\<lparr>req_user := Some (identity_of manager)\<rparr>)
     = Next (plain_request\<lparr>req_user := Some (identity_of manager)\<rparr>)
   \<and> authorize [''ADMINISTRATOR'', ''MANAGER'']
        ((bearer ''Bearer x'')\<lparr>req_user := Some (identity_of coordinator)\<rparr>)
     = Respond (message 403 ''Insufficient permissions'')
   \<and> authorized ref_libs unset_env [''ADMINISTRATOR'', ''MANAGER''] sample_handler 6000 seeded
        (bearer (''Bearer '' @ access_of coordinator))
     = (message 403 ''Insufficient permissions'', visited coordinator)
   \<and> authorized ref_libs unset_env [''ADMINISTRATOR'', ''MANAGER''] sample_handler 6000 seeded
        (bearer (''Bearer '' @ access_of manager))
     = sample_handler 6000 (visited manager)
         ((bearer (''Bearer '' @ access_of manager))\<lparr>req_user := Some (identity_of manager)\<rparr>)"
proof -
  let ?ps = "[''ADMINISTRATOR'', ''MANAGER'']"
  have none: "authorize ?ps plain_request = Respond (message 401 ''Not authenticated'')"
    by (rule authorize_gate [THEN conjunct1, THEN mp]) (simp add: plain_request_def)
  have coord: "authorize ?ps (plain_request\<lparr>req_user := Some (identity_of coordinator)\<rparr>)
      = Respond (message 403 ''Insufficient permissions'')"
    by (rule authorize_gate [where user = "identity_of coordinator",
          THEN conjunct2, THEN conjunct1, THEN mp])
       (simp add: identity_of_def coordinator_def admin_def)
  have mgr: "authorize ?ps (plain_request\<lparr>req_user := Some (identity_of manager)\<rparr>)
      = Next (plain_request\<lparr>req_user := Some (identity_of manager)\<rparr>)"
    by (rule authorize_gate [where user = "identity_of manager",
          THEN conjunct2, THEN conjunct2, THEN conjunct1, THEN mp])
       (simp add: identity_of_def manager_def admin_def)
  note decision = authorize_gate [THEN conjunct2, THEN conjunct2, THEN conjunct2,
      THEN conjunct1, THEN mp, THEN conjunct2, THEN iffD2]
  note route = authorize_gate [THEN conjunct2, THEN conjunct2, THEN conjunct2,
      THEN conjunct2, THEN mp]
  have same: "authorize ?ps ((bearer ''Bearer x'')\<lparr>req_user := Some (identity_of coordinator)\<rparr>)
      = Respond (message 403 ''Insufficient permissions'')"
    by (rule decision [OF _ coord]) simp
  have gate_c: "authorize ?ps
       ((bearer (''Bearer '' @ access_of coordinator))\<lparr>req_user := Some (identity_of coordinator)\<rparr>)
      = Respond (message 403 ''Insufficient permissions'')"
    by (rule decision [OF _ coord]) simp
  have gate_m: "authorize ?ps
       ((bearer (''Bearer '' @ access_of manager))\<lparr>req_user := Some (identity_of manager)\<rparr>)
      = Next ((bearer (''Bearer '' @ access_of manager))\<lparr>req_user := Some (identity_of manager)\<rparr>)"
    by (rule authorize_gate [where user = "identity_of manager",
          THEN conjunct2, THEN conjunct2, THEN conjunct1, THEN mp])
       (simp add: identity_of_def manager_def admin_def)
  have route_c: "authorized ref_libs unset_env ?ps sample_handler 6000 seeded
        (bearer (''Bearer '' @ access_of coordinator))
     = (message 403 ''Insufficient permissions'', visited coordinator)"
    by (simp only: route [OF authenticate_seeded [OF seeded_active_ids(5,6) spaceless_users(4)]]
          gate_c step.case)
  have route_m: "authorized ref_libs unset_env ?ps sample_handler 6000 seeded
        (bearer (''Bearer '' @ access_of manager))
     = sample_handler 6000 (visited manager)
         ((bearer (''Bearer '' @ access_of manager))\<lparr>req_user := Some (identity_of manager)\<rparr>)"
    by (simp only: route [OF authenticate_seeded [OF seeded_active_ids(3,4) spaceless_users(3)]]
          gate_m step.case)
  from none coord mgr same route_c route_m show ?thesis by (intro conjI)
qed

subsection \<open>Audit failures\<close>

text \<open>
  Claim C7. In the login and logout flows a failure of the audit append does not block the
  primary action: the success response is returned all the same. It is not: the append is
  awaited inside the handler's \<open>try\<close>, and when the audit store rejects, the login that
  answers 200 on the seeded store answers 500, although the session has been stored; the
  logout handler answers 500 as well, although the session has been deactivated.
\<close>

theorem audit_failure_blocks_counterexample:
  "res_status (fst (login ref_libs unset_env 5000 seeded
      (login_request ''admin@mecone.com'' ''admin123''))) = 200
   \<and> login ref_libs unset_env 5000 (audit_down seeded)
        (login_request ''admin@mecone.com'' ''admin123'')
       = (message 500 ''Internal server error'', audit_down logged_in)
   \<and> userSessions (audit_down logged_in) = [admin_session]
   \<and> logout 6000 (audit_down logged_in) logout_request
       = (message 500 ''Internal server error'',
          audit_down (logged_in\<lparr>userSessions := [admin_session\<lparr>s_isActive := False\<rparr>]\<rparr>))"
  by (simp add: login_admin_ok login_admin_audit_down logout_admin_audit_down)
     (simp add: audit_down_def logged_in_def)

text \<open>
  Claim C7, amended. In the login and logout flows the audit append is awaited inside the
  handler's \<open>try\<close>: when it fails, the handler answers 500 "Internal server error"
  instead of the success response, and the writes made before it (the last-login update
  and the new session in login, the deactivation of the session in logout) stay. In the
  logout route the authentication gate appends its own audit entry first, so with the audit
  store rejecting the route answers 401 and the handler is not reached. A 200 response of
  either handler means that the audit append succeeded.
\<close>

theorem audit_failure_answers_500:
  "(body_email req = Some email \<and> body_password req = Some password \<and> email \<noteq> [] \<and>
    password \<noteq> [] \<and> getUserByEmail d email = Inr (Some user) \<and> u_isActive user \<and>
    comparePassword L password (u_password user) \<and>
    updateUserLastLogin now d (u_id user) now = Inr d1 \<and>
    createSession now d1 (u_id user)
      (refreshToken (generateTokens L E now (payload_of user)))
      (now + 7 * 24 * 60 * 60 * 1000) (req_ip req) (req_userAgent req) = Inr d2 \<and>
    CreateAuditLog \<in> rejecting d \<longrightarrow>
      login L E now d req = (message 500 ''Internal server error'', d2))
   \<and> (req_user req = Some caller \<and> body_refreshToken req = Some token \<and> token \<noteq> [] \<and>
       deactivateSession d token = Inr d3 \<and> CreateAuditLog \<in> rejecting d \<longrightarrow>
      logout now d req = (message 500 ''Internal server error'', d3))
   \<and> (req_user req = Some caller \<and>
       (body_refreshToken req = None \<or> body_refreshToken req = Some []) \<and>
       CreateAuditLog \<in> rejecting d \<longrightarrow>
      logout now d req = (message 500 ''Internal server error'', d))
   \<and> (CreateAuditLog \<in> rejecting d \<longrightarrow>
      res_status (fst (logout_route L E now d req)) = 401
      \<and> snd (logout_route L E now d req) = d)
   \<and> (res_status (fst (login L E now d req)) = 200 \<longrightarrow> CreateAuditLog \<notin> rejecting d)
   \<and> (res_status (fst (logout now d req)) = 200 \<longrightarrow> CreateAuditLog \<notin> rejecting d)"
proof (intro conjI impI)
  assume a: "body_email req = Some email \<and> body_password req = Some password \<and> email \<noteq> [] \<and>
    password \<noteq> [] \<and> getUserByEmail d email = Inr (Some user) \<and> u_isActive user \<and>
    comparePassword L password (u_password user) \<and>
    updateUserLastLogin now d (u_id user) now = Inr d1 \<and>
    createSession now d1 (u_id user)
      (refreshToken (generateTokens L E now (payload_of user)))
      (now + 7 * 24 * 60 * 60 * 1000) (req_ip req) (req_userAgent req) = Inr d2 \<and>
    CreateAuditLog \<in> rejecting d"
  then have "rejecting d2 = rejecting d"
    using rejecting_kept(1) [of now d "u_id user" now d1] rejecting_kept(2) [of now d1 _ _ _ _ _ d2]
    by auto
  with a have "CreateAuditLog \<in> rejecting d2" by simp
  with a show "login L E now d req = (message 500 ''Internal server error'', d2)"
    by (simp add: login_def payload_of_def Let_def createAuditLog_rejects)
next
  assume a: "req_user req = Some caller \<and> body_refreshToken req = Some token \<and> token \<noteq> [] \<and>
       deactivateSession d token = Inr d3 \<and> CreateAuditLog \<in> rejecting d"
  then have "rejecting d3 = rejecting d"
    using rejecting_kept(3) [of d token d3] by simp
  with a have "CreateAuditLog \<in> rejecting d3" by simp
  with a show "logout now d req = (message 500 ''Internal server error'', d3)"
    by (simp add: logout_def createAuditLog_rejects)
next
  assume "req_user req = Some caller \<and>
       (body_refreshToken req = None \<or> body_refreshToken req = Some []) \<and>
       CreateAuditLog \<in> rejecting d"
  then show "logout now d req = (message 500 ''Internal server error'', d)"
    by (auto simp: logout_def createAuditLog_rejects)
next
  assume "CreateAuditLog \<in> rejecting d"
  from authenticate_audit_down [OF this, of L E now req]
  show "res_status (fst (logout_route L E now d req)) = 401"
    and "snd (logout_route L E now d req) = d"
    by (auto simp: logout_route_def authenticated_def message_def)
next
  assume ok: "res_status (fst (login L E now d req)) = 200"
  show "CreateAuditLog \<notin> rejecting d"
  proof
    assume down: "CreateAuditLog \<in> rejecting d"
    have "\<And>x d'. rejecting d' = rejecting d \<Longrightarrow> createAuditLog now d' x = Inl StorageUnavailable"
      using down by (simp add: createAuditLog_def)
    then have "res_status (fst (login L E now d req)) \<noteq> 200"
      by (auto simp: login_def message_def Let_def rejecting_kept
            split: option.splits sum.splits)
    with ok show False by simp
  qed
next
  assume ok: "res_status (fst (logout now d req)) = 200"
  show "CreateAuditLog \<notin> rejecting d"
  proof
    assume down: "CreateAuditLog \<in> rejecting d"
    have "\<And>x d'. rejecting d' = rejecting d \<Longrightarrow> createAuditLog now d' x = Inl StorageUnavailable"
      using down by (simp add: createAuditLog_def)
    then have "res_status (fst (logout now d req)) \<noteq> 200"
      by (auto simp: logout_def message_def rejecting_kept split: option.splits sum.splits)
    with ok show False by simp
  qed
qed

theorem audit_failure_answers_500_witness:
  "login ref_libs unset_env 5000 (audit_down seeded)
        (login_request ''admin@mecone.com'' ''admin123'')
       = (message 500 ''Internal server error'', audit_down logged_in)
   \<and> logout 6000 (audit_down logged_in) logout_request
       = (message 500 ''Internal server error'',
          audit_down (logged_in\<lparr>userSessions := [admin_session\<lparr>s_isActive := False\<rparr>]\<rparr>))
   \<and> logout 6000 (audit_down logged_in) (plain_request\<lparr>req_user := Some (identity_of admin)\<rparr>)
       = (message 500 ''Internal server error'', audit_down logged_in)
   \<and> res_status (fst (logout_route ref_libs unset_env 6000 (audit_down logged_in)
        ((bearer (''Bearer '' @ access_of admin))\<lparr>body_refreshToken := Some (refresh_of admin)\<rparr>)))
       = 401
   \<and> CreateAuditLog \<notin> rejecting seeded"
proof (intro conjI)
  show "login ref_libs unset_env 5000 (audit_down seeded)
        (login_request ''admin@mecone.com'' ''admin123'')
       = (message 500 ''Internal server error'', audit_down logged_in)"
    by (rule audit_failure_answers_500 [where email = "''admin@mecone.com''"
          and password = "''admin123''" and user = admin
          and ?d1.0 = "audit_down (seeded\<lparr>users :=
                 [admin\<lparr>u_lastLogin := Some 5000, u_updatedAt := 5000\<rparr>, retired, manager,
                  coordinator]\<rparr>)",
          THEN conjunct1, THEN mp])
       (simp add: login_request_def getUserByEmail_def audit_down_def seeded_def
          comparePassword_def ref_libs_def ref_compare_def updateUserLastLogin_def
          createSession_def logged_in_def admin_session_def refresh_of_def admin_def
          retired_def manager_def coordinator_def payload_of_def)
  show "logout 6000 (audit_down logged_in) logout_request
       = (message 500 ''Internal server error'',
          audit_down (logged_in\<lparr>userSessions := [admin_session\<lparr>s_isActive := False\<rparr>]\<rparr>))"
    by (rule audit_failure_answers_500 [where caller = "identity_of admin"
          and token = "refresh_of admin", THEN conjunct2, THEN conjunct1, THEN mp])
       (simp add: logout_request_def refresh_request_def plain_request_def refresh_of_nonempty
          deactivateSession_def audit_down_def logged_in_def admin_session_def)
  show "logout 6000 (audit_down logged_in) (plain_request\<lparr>req_user := Some (identity_of admin)\<rparr>)
       = (message 500 ''Internal server error'', audit_down logged_in)"
    by (rule audit_failure_answers_500 [where caller = "identity_of admin",
          THEN conjunct2, THEN conjunct2, THEN conjunct1, THEN mp])
       (simp add: plain_request_def audit_down_def)
  show "res_status (fst (logout_route ref_libs unset_env 6000 (audit_down logged_in)
        ((bearer (''Bearer '' @ access_of admin))\<lparr>body_refreshToken := Some (refresh_of admin)\<rparr>)))
       = 401"
    by (rule audit_failure_answers_500 [THEN conjunct2, THEN conjunct2, THEN conjunct2,
          THEN conjunct1, THEN mp, THEN conjunct1])
       (simp add: audit_down_def)
  show "CreateAuditLog \<notin> rejecting seeded"
    by (rule audit_failure_answers_500 [THEN conjunct2, THEN conjunct2, THEN conjunct2,
          THEN conjunct2, THEN conjunct1, THEN mp])
       (rule login_admin_ok)
qed

subsection \<open>The signing secrets\<close>

text \<open>
  Claim C8. The two signing secrets are read from the environment and are not defaulted.
  They are defaulted: with neither variable set, the token service signs and verifies with
  the constants written in the module.
\<close>

theorem secrets_not_defaulted_counterexample:
  "env_JWT_SECRET unset_env = None \<and> env_JWT_REFRESH_SECRET unset_env = None
   \<and> accessToken (generateTokens ref_libs unset_env 5000 (payload_of admin))
       = ref_sign (payload_of admin) ''your-secret-key-change-in-production'' ''15m'' 5000
   \<and> refreshToken (generateTokens ref_libs unset_env 5000 (payload_of admin))
       = ref_sign (payload_of admin) ''your-refresh-secret-key-change-in-production'' ''7d'' 5000
   \<and> verifyToken ref_libs unset_env 6000
        (ref_sign (payload_of admin) ''your-secret-key-change-in-production'' ''15m'' 5000)
       = Some (payload_of admin)
   \<and> verifyRefreshToken ref_libs unset_env 6000
        (ref_sign (payload_of admin) ''your-refresh-secret-key-change-in-production'' ''7d'' 5000)
       = Some (payload_of admin)"
  by (simp add: unset_env_def generateTokens_def verifyToken_def verifyRefreshToken_def
        ref_libs_def JWT_SECRET_def JWT_REFRESH_SECRET_def js_or_def ref_verify_sign span_def)

text \<open>
  Claim C8, amended. The two signing secrets are read from the environment; when a
  variable is unset or empty, the token service signs and verifies with the constant
  written in the module (\<open>'your-secret-key-change-in-production'\<close> for access tokens,
  \<open>'your-refresh-secret-key-change-in-production'\<close> for refresh tokens), and with the
  variable's value otherwise.
\<close>

theorem secrets_default_when_unset:
  "((env_JWT_SECRET E = None \<or> env_JWT_SECRET E = Some []) \<longrightarrow>
      accessToken (generateTokens L E now payload)
        = jwt_sign L payload ''your-secret-key-change-in-production'' ''15m'' now
      \<and> verifyToken L E now token
        = jwt_verify L token ''your-secret-key-change-in-production'' now)
   \<and> ((env_JWT_REFRESH_SECRET E = None \<or> env_JWT_REFRESH_SECRET E = Some []) \<longrightarrow>
      refreshToken (generateTokens L E now payload)
        = jwt_sign L payload ''your-refresh-secret-key-change-in-production'' ''7d'' now
      \<and> verifyRefreshToken L E now token
        = jwt_verify L token ''your-refresh-secret-key-change-in-production'' now)
   \<and> (env_JWT_SECRET E = Some s \<and> s \<noteq> [] \<longrightarrow>
      accessToken (generateTokens L E now payload) = jwt_sign L payload s ''15m'' now
      \<and> verifyToken L E now token = jwt_verify L token s now)
   \<and> (env_JWT_REFRESH_SECRET E = Some s' \<and> s' \<noteq> [] \<longrightarrow>
      refreshToken (generateTokens L E now payload) = jwt_sign L payload s' ''7d'' now
      \<and> verifyRefreshToken L E now token = jwt_verify L token s' now)"
  by (auto simp: generateTokens_def verifyToken_def verifyRefreshToken_def JWT_SECRET_def
        JWT_REFRESH_SECRET_def js_or_def)

theorem secrets_default_when_unset_witness:
  "accessToken (generateTokens ref_libs unset_env 5000 (payload_of admin))
     = jwt_sign ref_libs (payload_of admin) ''your-secret-key-change-in-production'' ''15m'' 5000
   \<and> verifyRefreshToken ref_libs unset_env 6000 ''x''
     = jwt_verify ref_libs ''x'' ''your-refresh-secret-key-change-in-production'' 6000
   \<and> verifyToken ref_libs configured_env 6000 ''x'' = jwt_verify ref_libs ''x'' ''s1'' 6000
   \<and> refreshToken (generateTokens ref_libs configured_env 5000 (payload_of admin))
     = jwt_sign ref_libs (payload_of admin) ''s2'' ''7d'' 5000"
proof -
  note unset = secrets_default_when_unset [where E = unset_env and L = ref_libs
      and payload = "payload_of admin" and token = "''x''"]
  note conf = secrets_default_when_unset [where E = configured_env and L = ref_libs
      and payload = "payload_of admin" and token = "''x''" and s = "''s1''" and s' = "''s2''"]
  from unset [where now = 5000] unset [where now = 6000] conf [where now = 5000]
    conf [where now = 6000]
  show ?thesis by (simp add: unset_env_def configured_env_def)
qed

subsection \<open>Temporary passwords\<close>

text \<open>
  Claim C9. \<open>generateTemporaryPassword\<close> returns at least 6 characters for every value
  of the random source. It does not: for \<open>Math.random() = 0.5\<close> the base-36 text is
  \<open>"0.i"\<close> and \<open>slice(-8)\<close> keeps all 3 characters of it; for \<open>0\<close> the result is
  \<open>"0"\<close>.
\<close>

theorem temporary_password_short:
  "generateTemporaryPassword 1 1 = ''0.i'' \<and> length (generateTemporaryPassword 1 1) = 3
   \<and> generateTemporaryPassword 0 0 = ''0'' \<and> length (generateTemporaryPassword 0 0) = 1"
  by (simp add: generateTemporaryPassword_def toString36_def js_slice_last_def digit36_def)

subsection \<open>The identity comes from the token\<close>

text \<open>
  Claim C10. The authentication gate takes the attached email and role from the payload of
  the access token, not from the user it has just looked up: the store is asked only
  whether the user exists and is active. So two stores that differ only in the users'
  profiles and emails give, for the same request and token, the same outcome of the gate,
  the same attached identity, the same audit entry and the same decision of the
  authorization gate: a changed role shows only in tokens issued after the change.
\<close>

theorem authenticate_identity_from_token:
  assumes "users d2 = map (\<lambda>u. u\<lparr>u_profile := f u, u_email := g u\<rparr>) (users d1)"
    and "auditLogs d2 = auditLogs d1" and "uuid_counter d2 = uuid_counter d1"
    and "rejecting d2 = rejecting d1"
  shows "fst (authenticate L E now d2 req) = fst (authenticate L E now d1 req)
     \<and> auditLogs (snd (authenticate L E now d2 req))
         = auditLogs (snd (authenticate L E now d1 req))
     \<and> (case fst (authenticate L E now d2 req) of
           Respond r \<Rightarrow> Respond r | Next r \<Rightarrow> authorize profiles r)
         = (case fst (authenticate L E now d1 req) of
           Respond r \<Rightarrow> Respond r | Next r \<Rightarrow> authorize profiles r)
     \<and> (\<forall>req' d'. authenticate L E now d1 req = (Next req', d') \<longrightarrow>
          (\<exists>h token payload. req_authorization req = Some h \<and>
             js_index (js_split CHR '' '' h) 1 = Some token \<and>
             verifyToken L E now token = Some payload \<and>
             req' = req\<lparr>req_user := Some \<lparr>i_id = p_userId payload,
                                          i_email = p_email payload,
                                          i_profile = p_profile payload\<rparr>\<rparr>))"
proof -
  have lookup: "getUser d2 i = map_sum id (map_option (\<lambda>u. u\<lparr>u_profile := f u, u_email := g u\<rparr>))
      (getUser d1 i)" for i
    using assms(1,4) by (simp add: getUser_def find_over_map)
  have fst_eq: "fst (authenticate L E now d2 req) = fst (authenticate L E now d1 req)"
    and logs_eq: "auditLogs (snd (authenticate L E now d2 req))
         = auditLogs (snd (authenticate L E now d1 req))"
    using assms(2,3,4)
    by (auto simp: authenticate_def lookup createAuditLog_def
          split: option.splits sum.splits if_splits)
  have from_token: "\<exists>h token payload. req_authorization req = Some h \<and>
             js_index (js_split CHR '' '' h) 1 = Some token \<and>
             verifyToken L E now token = Some payload \<and>
             req' = req\<lparr>req_user := Some \<lparr>i_id = p_userId payload,
                                          i_email = p_email payload,
                                          i_profile = p_profile payload\<rparr>\<rparr>"
    if pass: "authenticate L E now d1 req = (Next req', d')" for req' d'
  proof -
    obtain h where h: "req_authorization req = Some h" "h \<noteq> []"
      using pass by (cases "req_authorization req") (auto simp: authenticate_def split: if_splits)
    obtain token where token: "js_index (js_split CHR '' '' h) 1 = Some token" "token \<noteq> []"
      using pass h
      by (cases "js_index (js_split CHR '' '' h) 1")
         (auto simp: authenticate_def split: if_splits)
    obtain payload where payload: "verifyToken L E now token = Some payload"
      using pass h token
      by (cases "verifyToken L E now token") (auto simp: authenticate_def)
    from pass h token payload
    have "req' = req\<lparr>req_user := Some \<lparr>i_id = p_userId payload, i_email = p_email payload,
                                          i_profile = p_profile payload\<rparr>\<rparr>"
      by (auto simp: authenticate_def split: option.splits sum.splits if_splits)
    with h token payload show ?thesis by blast
  qed
  from fst_eq logs_eq from_token show ?thesis by simp
qed

theorem authenticate_identity_from_token_witness:
  "getUser demoted ''u3''
     = Inr (Some (manager\<lparr>u_profile := ''COORDINATOR'', u_email := ''new@mecone.com''\<rparr>))
   \<and> fst (authenticate ref_libs unset_env 6000 demoted (bearer (''Bearer '' @ access_of manager)))
     = Next ((bearer (''Bearer '' @ access_of manager))\<lparr>req_user := Some (identity_of manager)\<rparr>)
   \<and> i_profile (identity_of manager) = ''MANAGER''
   \<and> (case fst (authenticate ref_libs unset_env 6000 demoted
                  (bearer (''Bearer '' @ access_of manager))) of
         Respond r \<Rightarrow> Respond r
       | Next r \<Rightarrow> authorize [''ADMINISTRATOR'', ''MANAGER''] r)
     = Next ((bearer (''Bearer '' @ access_of manager))\<lparr>req_user := Some (identity_of manager)\<rparr>)"
proof -
  let ?req = "bearer (''Bearer '' @ access_of manager)"
  have store: "getUser demoted ''u3''
     = Inr (Some (manager\<lparr>u_profile := ''COORDINATOR'', u_email := ''new@mecone.com''\<rparr>))"
    by (simp add: getUser_def demoted_def seeded_def demote_def readdress_def admin_def
          retired_def manager_def coordinator_def)
  have role: "i_profile (identity_of manager) = ''MANAGER''"
    by (simp add: identity_of_def manager_def)
  have d: "users demoted = map (\<lambda>u. u\<lparr>u_profile := demote u, u_email := readdress u\<rparr>)
      (users seeded)" "auditLogs demoted = auditLogs seeded"
    "uuid_counter demoted = uuid_counter seeded" "rejecting demoted = rejecting seeded"
    by (simp_all add: demoted_def)
  note two_runs = authenticate_identity_from_token [OF d, of ref_libs unset_env 6000 ?req
      "[''ADMINISTRATOR'', ''MANAGER'']"]
  have seeded_run: "fst (authenticate ref_libs unset_env 6000 seeded ?req)
      = Next (?req\<lparr>req_user := Some (identity_of manager)\<rparr>)"
    by (simp only: authenticate_seeded [OF seeded_active_ids(3,4) spaceless_users(3)] fst_conv)
  have gate: "authorize [''ADMINISTRATOR'', ''MANAGER'']
        (?req\<lparr>req_user := Some (identity_of manager)\<rparr>)
      = Next (?req\<lparr>req_user := Some (identity_of manager)\<rparr>)"
    by (simp add: authorize_def role)
  from two_runs [THEN conjunct1] seeded_run
  have run: "fst (authenticate ref_libs unset_env 6000 demoted ?req)
      = Next (?req\<lparr>req_user := Some (identity_of manager)\<rparr>)"
    by (rule trans)
  have decision: "(case fst (authenticate ref_libs unset_env 6000 demoted ?req) of
         Respond r \<Rightarrow> Respond r
       | Next r \<Rightarrow> authorize [''ADMINISTRATOR'', ''MANAGER''] r)
     = Next (?req\<lparr>req_user := Some (identity_of manager)\<rparr>)"
    by (simp only: run step.case gate)
  from store run role decision show ?thesis by (intro conjI)
qed

end
